theory Spec2Isabelle
  imports Main "HOL-Library.Char_ord" "HOL-Library.List_Lexorder"
begin

section \<open>Seattle illegal dumping: the star schema builder\<close>

text \<open>
  A shallow embedding of \<^verbatim>\<open>scripts/build_star_schema_documented.py\<close>. A pandas Series is
  a typed column, a DataFrame built from a CSV file is a list of named columns, each of
  the six output tables is a record of columns, an exception is a value of \<open>error\<close>
  and the export directory is an explicit file system state.

  What the pandas and numpy library does inside a call is written out where the script
  depends on it (text cleaning, rounding, rendering of numbers, duplicate detection).
  The conversions of free text to numbers and to timestamps, and the calendar, are
  parameters of the model (\<open>library\<close>): every theorem holds for whatever they compute.
\<close>

subsection \<open>Text\<close>

text \<open>
  Strings are lists of bytes; the functions below are those of Python on ASCII text
  (\<^verbatim>\<open>str.upper\<close>, \<^verbatim>\<open>str.strip\<close>, \<^verbatim>\<open>str.isspace\<close>, the regular expression classes
  \<^verbatim>\<open>\s\<close>, \<^verbatim>\<open>\d\<close> and \<^verbatim>\<open>[A-Z0-9 ]\<close>). Bytes above 127 are left alone by \<open>str_upper\<close>
  and are no white space.
\<close>

definition is_space :: "char \<Rightarrow> bool" where
  "is_space c = (c \<in> set [CHR 0x09, CHR 0x0A, CHR 0x0B, CHR 0x0C, CHR 0x0D,
                            CHR 0x1C, CHR 0x1D, CHR 0x1E, CHR 0x1F, CHR '' ''])"

definition is_digit :: "char \<Rightarrow> bool" where
  "is_digit c = (c \<in> set ''0123456789'')"

definition is_upper_alnum_space :: "char \<Rightarrow> bool" where
  "is_upper_alnum_space c = (c \<in> set ''ABCDEFGHIJKLMNOPQRSTUVWXYZ0123456789 '')"

definition upper_char :: "char \<Rightarrow> char" where
  "upper_char c =
     (case map_of (zip ''abcdefghijklmnopqrstuvwxyz'' ''ABCDEFGHIJKLMNOPQRSTUVWXYZ'') c of
        Some u \<Rightarrow> u
      | None \<Rightarrow> c)"

definition str_upper :: "string \<Rightarrow> string" where
  "str_upper s = map upper_char s"

definition str_strip :: "string \<Rightarrow> string" where
  "str_strip s = rev (dropWhile is_space (rev (dropWhile is_space s)))"

text \<open>\<^verbatim>\<open>re.sub(r"[^A-Z0-9 ]+", "", s)\<close>: every character outside the class goes.\<close>

definition remove_special :: "string \<Rightarrow> string" where
  "remove_special s = filter is_upper_alnum_space s"

text \<open>\<^verbatim>\<open>re.sub(r"\s+", " ", s)\<close>: each maximal run of white space becomes one blank.\<close>

function collapse_ws :: "string \<Rightarrow> string" where
  "collapse_ws [] = []"
| "collapse_ws (c # cs) =
     (if is_space c then CHR '' '' # collapse_ws (dropWhile is_space cs)
      else c # collapse_ws cs)"
  by pat_completeness auto
termination
  by (relation "measure length") (auto simp: length_dropWhile_le le_imp_less_Suc)

text \<open>
  \<^verbatim>\<open>.replace({"None": pd.NA, "nan": pd.NA, "": pd.NA})\<close>: a value that is exactly one
  of the three keys becomes missing; the comparison is case-sensitive.
\<close>

definition replace_na :: "string \<Rightarrow> string option" where
  "replace_na s = (if s = ''None'' \<or> s = ''nan'' \<or> s = '''' then None else Some s)"

text \<open>\<^verbatim>\<open>str.extract(r"(\d{5})")\<close>: the leftmost five consecutive digits.\<close>

fun extract_zip :: "string \<Rightarrow> string option" where
  "extract_zip [] = None"
| "extract_zip (c # cs) =
     (if length (c # cs) \<ge> 5 \<and> list_all is_digit (take 5 (c # cs)) then Some (take 5 (c # cs))
      else extract_zip cs)"

definition digit_char :: "nat \<Rightarrow> char" where
  "digit_char n = ''0123456789'' ! (n mod 10)"

function str_nat :: "nat \<Rightarrow> string" where
  "str_nat n = (if n < 10 then [digit_char n] else str_nat (n div 10) @ [digit_char n])"
  by pat_completeness auto
termination
  by (relation "measure id") auto

declare str_nat.simps [simp del]

definition str_int :: "int \<Rightarrow> string" where
  "str_int i = (if i < 0 then ''-'' @ str_nat (nat (- i)) else str_nat (nat i))"

subsection \<open>Numbers\<close>

text \<open>
  A float64 that is not NaN: \<open>Fin neg m d\<close> is the decimal \<open>m / 10 ^ d\<close> with its sign
  bit, so \<open>Fin True 0 d\<close> is the negative zero; every finite float64 is such a decimal.
  NaN is pandas' missing value of a float column and is \<open>None\<close> throughout. Arithmetic
  is exact on the decimals: the binary rounding error of a float64 is not modelled.
\<close>

datatype f64 = Fin bool nat nat | PInf | NInf

definition f64_of_int :: "int \<Rightarrow> f64" where
  "f64_of_int i = Fin (i < 0) (nat \<bar>i\<bar>) 0"

text \<open>\<^verbatim>\<open>x == 0\<close> and \<^verbatim>\<open>x == y\<close> on floats: the two zeros are equal.\<close>

fun eq_zero :: "f64 \<Rightarrow> bool" where
  "eq_zero (Fin neg m d) = (m = 0)"
| "eq_zero PInf = False"
| "eq_zero NInf = False"

fun float_eq :: "f64 \<Rightarrow> f64 \<Rightarrow> bool" where
  "float_eq (Fin n1 m1 d1) (Fin n2 m2 d2) =
     (m1 * 10 ^ d2 = m2 * 10 ^ d1 \<and> (n1 = n2 \<or> m1 = 0))"
| "float_eq PInf PInf = True"
| "float_eq NInf NInf = True"
| "float_eq _ _ = False"

text \<open>
  \<^verbatim>\<open>Series.round(4)\<close> is numpy's \<^verbatim>\<open>rint(x * 10**4) / 10**4\<close>: to the nearest multiple
  of 0.0001, a tie to the even one, the sign kept (a negative value that rounds to zero
  is the negative zero), an infinity unchanged.
\<close>

definition round_scaled :: "nat \<Rightarrow> nat \<Rightarrow> nat" where
  "round_scaled m d =
     (if d \<le> 4 then m * 10 ^ (4 - d)
      else let p = 10 ^ (d - 4); q = m div p; r = m mod p
           in if 2 * r > p \<or> (2 * r = p \<and> odd q) then q + 1 else q)"

fun round4 :: "f64 \<Rightarrow> f64" where
  "round4 (Fin neg m d) = Fin neg (round_scaled m d) 4"
| "round4 PInf = PInf"
| "round4 NInf = NInf"

text \<open>
  \<^verbatim>\<open>str(x)\<close> of a float, as \<^verbatim>\<open>astype("string")\<close> applies it: the sign, the integer
  part, a point and the decimals without trailing zeros, at least one. (Python writes
  values from \<open>10 ^ 16\<close> on, and below 0.0001, in exponent notation; that is not
  modelled.)
\<close>

fun pad_left :: "nat \<Rightarrow> string \<Rightarrow> string" where
  "pad_left n s = replicate (n - length s) CHR ''0'' @ s"

definition frac_digits :: "nat \<Rightarrow> nat \<Rightarrow> string" where
  "frac_digits m d =
     (let s = rev (dropWhile (\<lambda>c. c = CHR ''0'') (rev (pad_left d (str_nat (m mod 10 ^ d)))))
      in if d = 0 \<or> s = [] then ''0'' else s)"

fun float_str :: "f64 \<Rightarrow> string" where
  "float_str (Fin neg m d) =
     (if neg then ''-'' else '''') @ str_nat (m div 10 ^ d) @ ''.'' @ frac_digits m d"
| "float_str PInf = ''inf''"
| "float_str NInf = ''-inf''"

subsection \<open>Errors\<close>

datatype error =
    KeyError "string list"    \<comment> \<open>the column names that are not in the index\<close>
  | AttributeError            \<comment> \<open>\<^verbatim>\<open>.dt\<close> on something that holds no timestamps\<close>
  | CastError                 \<comment> \<open>a float that is no whole number cast to \<^verbatim>\<open>Int64\<close>\<close>
  | ValueError string         \<comment> \<open>raised by the script itself, with its message\<close>

subsection \<open>Columns and frames\<close>

text \<open>
  A timestamp is pandas' own representation, nanoseconds since the epoch. A column is a
  Series with its dtype: \<open>Text\<close> for \<^verbatim>\<open>object\<close> and \<^verbatim>\<open>string\<close>, \<open>Float\<close> for
  \<^verbatim>\<open>float64\<close>, \<open>Integer\<close> for \<^verbatim>\<open>int64\<close> and \<^verbatim>\<open>Int64\<close>, \<open>Stamp\<close> for
  \<^verbatim>\<open>datetime64[ns]\<close>; \<open>None\<close> is the missing value of each (\<^verbatim>\<open>pd.NA\<close>, NaN, NaT).
\<close>

type_synonym timestamp = int

datatype column =
    Text "string option list"
  | Float "f64 option list"
  | Integer "int option list"
  | Stamp "timestamp option list"

datatype cell = NA | S string | F f64 | I int | T timestamp

fun cells :: "column \<Rightarrow> cell list" where
  "cells (Text xs) = map (\<lambda>x. case x of None \<Rightarrow> NA | Some s \<Rightarrow> S s) xs"
| "cells (Float xs) = map (\<lambda>x. case x of None \<Rightarrow> NA | Some f \<Rightarrow> F f) xs"
| "cells (Integer xs) = map (\<lambda>x. case x of None \<Rightarrow> NA | Some i \<Rightarrow> I i) xs"
| "cells (Stamp xs) = map (\<lambda>x. case x of None \<Rightarrow> NA | Some t \<Rightarrow> T t) xs"

fun col_length :: "column \<Rightarrow> nat" where
  "col_length (Text xs) = length xs"
| "col_length (Float xs) = length xs"
| "col_length (Integer xs) = length xs"
| "col_length (Stamp xs) = length xs"

text \<open>Row selection by a boolean mask, \<^verbatim>\<open>s[mask]\<close>: the rows where the mask is true.\<close>

definition select_rows :: "bool list \<Rightarrow> 'a list \<Rightarrow> 'a list" where
  "select_rows keep xs = map snd (filter fst (zip keep xs))"

fun col_rows :: "bool list \<Rightarrow> column \<Rightarrow> column" where
  "col_rows keep (Text xs) = Text (select_rows keep xs)"
| "col_rows keep (Float xs) = Float (select_rows keep xs)"
| "col_rows keep (Integer xs) = Integer (select_rows keep xs)"
| "col_rows keep (Stamp xs) = Stamp (select_rows keep xs)"

text \<open>
  The library functions the model takes as parameters: what \<^verbatim>\<open>pd.to_numeric\<close> and
  \<^verbatim>\<open>pd.to_datetime\<close> read from a text (\<open>None\<close> when \<^verbatim>\<open>errors="coerce"\<close> gives up),
  how a timestamp prints, and the calendar fields of a timestamp.
\<close>

record library =
  to_float :: "string \<Rightarrow> f64 option"
  to_timestamp :: "string \<Rightarrow> timestamp option"
  stamp_str :: "timestamp \<Rightarrow> string"
  year_of :: "timestamp \<Rightarrow> int"
  month_of :: "timestamp \<Rightarrow> int"
  day_of :: "timestamp \<Rightarrow> int"
  hour_of :: "timestamp \<Rightarrow> int"
  dayofweek_of :: "timestamp \<Rightarrow> int"
  isoweek_of :: "timestamp \<Rightarrow> int"
  day_name :: "timestamp \<Rightarrow> string"
  month_name :: "timestamp \<Rightarrow> string"

text \<open>\<^verbatim>\<open>s.astype("string")\<close>.\<close>

fun astype_string :: "library \<Rightarrow> column \<Rightarrow> string option list" where
  "astype_string L (Text xs) = xs"
| "astype_string L (Float xs) = map (map_option float_str) xs"
| "astype_string L (Integer xs) = map (map_option str_int) xs"
| "astype_string L (Stamp xs) = map (map_option (stamp_str L)) xs"

text \<open>
  \<^verbatim>\<open>pd.to_numeric(s, errors="coerce")\<close>, with a float64 result. (For a column of
  whole numbers pandas keeps \<^verbatim>\<open>int64\<close>, which prints without the point.)
\<close>

fun to_numeric :: "library \<Rightarrow> column \<Rightarrow> f64 option list" where
  "to_numeric L (Text xs) = map (\<lambda>x. Option.bind x (to_float L)) xs"
| "to_numeric L (Float xs) = xs"
| "to_numeric L (Integer xs) = map (map_option f64_of_int) xs"
| "to_numeric L (Stamp xs) = map (map_option f64_of_int) xs"

text \<open>\<^verbatim>\<open>pd.to_datetime(s, errors="coerce")\<close>; a number counts nanoseconds.\<close>

fun f64_trunc :: "f64 \<Rightarrow> int option" where
  "f64_trunc (Fin neg m d) =
     Some (if neg then - int (m div 10 ^ d) else int (m div 10 ^ d))"
| "f64_trunc PInf = None"
| "f64_trunc NInf = None"

fun to_datetime :: "library \<Rightarrow> column \<Rightarrow> timestamp option list" where
  "to_datetime L (Text xs) = map (\<lambda>x. Option.bind x (to_timestamp L)) xs"
| "to_datetime L (Float xs) = map (\<lambda>x. Option.bind x f64_trunc) xs"
| "to_datetime L (Integer xs) = xs"
| "to_datetime L (Stamp xs) = xs"

subsection \<open>Helper functions of the script\<close>

fun std_text_value :: "string option \<Rightarrow> string option" where
  "std_text_value None = None"
| "std_text_value (Some s) = replace_na (str_strip s)"

definition std_text :: "library \<Rightarrow> column \<Rightarrow> string option list" where
  "std_text L s = map std_text_value (astype_string L s)"

fun std_upper_key_value :: "string option \<Rightarrow> string option" where
  "std_upper_key_value None = None"
| "std_upper_key_value (Some s) = replace_na (str_strip (str_upper s))"

definition std_upper_key :: "library \<Rightarrow> column \<Rightarrow> string option list" where
  "std_upper_key L s = map std_upper_key_value (astype_string L s)"

text \<open>
  \<open>build_location_key\<close>, row by row. \<open>loc_std\<close> is the normalised address;
  \<open>mask_00\<close> makes both coordinates missing where both are zero; \<open>geo_key\<close> is the
  coordinate key where both rounded coordinates are there; \<^verbatim>\<open>fillna\<close> takes the address
  where it is not.
\<close>

fun loc_std :: "string option \<Rightarrow> string option" where
  "loc_std None = None"
| "loc_std (Some s) = replace_na (str_strip (collapse_ws (remove_special (str_upper s))))"

definition mask_00 :: "f64 option \<Rightarrow> f64 option \<Rightarrow> bool" where
  "mask_00 lat lon =
     ((case lat of None \<Rightarrow> False | Some x \<Rightarrow> eq_zero x) \<and>
      (case lon of None \<Rightarrow> False | Some y \<Rightarrow> eq_zero y))"

definition geo_key :: "f64 option \<Rightarrow> f64 option \<Rightarrow> string option" where
  "geo_key lat_num lon_num =
     (let m = mask_00 lat_num lon_num;
          lat_num = (if m then None else lat_num);
          lon_num = (if m then None else lon_num);
          lat_round = map_option round4 lat_num;
          lon_round = map_option round4 lon_num
      in case (lat_round, lon_round) of
           (Some a, Some b) \<Rightarrow> Some (float_str a @ '','' @ float_str b)
         | _ \<Rightarrow> None)"

definition fillna :: "'a option \<Rightarrow> 'a option \<Rightarrow> 'a option" where
  "fillna x y = (case x of None \<Rightarrow> y | Some v \<Rightarrow> Some v)"

definition location_key :: "string option \<Rightarrow> f64 option \<Rightarrow> f64 option \<Rightarrow> string option" where
  "location_key loc lat_num lon_num = fillna (geo_key lat_num lon_num) (loc_std loc)"

text \<open>The three Series share one index: the rows are taken position by position.\<close>

definition build_location_key :: "library \<Rightarrow> column \<Rightarrow> column \<Rightarrow> column \<Rightarrow> string option list" where
  "build_location_key L location lat lon =
     map (\<lambda>(loc, lat_num, lon_num). location_key loc lat_num lon_num)
       (zip (astype_string L location) (zip (to_numeric L lat) (to_numeric L lon)))"

subsection \<open>Data frames\<close>

text \<open>
  A DataFrame: its index length and its columns in order, each under its name (the
  columns of one frame have one length, that of the index). \<open>get\<close> is \<^verbatim>\<open>df.get(name)\<close>,
  \<open>get_or_na\<close> is \<^verbatim>\<open>df.get(name, pd.Series(pd.NA, index=df.index))\<close>, \<open>set_col\<close> is
  \<^verbatim>\<open>df[name] = column\<close>: in place when the name is there, appended when it is not.
\<close>

record frame =
  nrows :: nat
  cols :: "(string \<times> column) list"

definition get :: "frame \<Rightarrow> string \<Rightarrow> column option" where
  "get df name = map_of (cols df) name"

definition all_na :: "frame \<Rightarrow> column" where
  "all_na df = Text (replicate (nrows df) None)"

definition get_or_na :: "frame \<Rightarrow> string \<Rightarrow> column" where
  "get_or_na df name = (case get df name of None \<Rightarrow> all_na df | Some c \<Rightarrow> c)"

fun assign :: "string \<Rightarrow> 'a \<Rightarrow> (string \<times> 'a) list \<Rightarrow> (string \<times> 'a) list" where
  "assign name c [] = [(name, c)]"
| "assign name c (p # ps) = (if fst p = name then (name, c) # ps else p # assign name c ps)"

definition set_col :: "string \<Rightarrow> column \<Rightarrow> frame \<Rightarrow> frame" where
  "set_col name c df = df\<lparr>cols := assign name c (cols df)\<rparr>"

definition has_col :: "frame \<Rightarrow> string \<Rightarrow> bool" where
  "has_col df name = (name \<in> set (map fst (cols df)))"

subsection \<open>load_and_clean\<close>

text \<open>
  The model starts from the frame \<^verbatim>\<open>pd.read_csv\<close> returns. Each step below is one
  block of the function, in its order.
\<close>

text \<open>
  \<^verbatim>\<open>df["Created Date"] = pd.to_datetime(df.get("Created Date"), errors="coerce")\<close>. Without
  the column \<^verbatim>\<open>df.get\<close> is \<^verbatim>\<open>None\<close>, \<^verbatim>\<open>pd.to_datetime(None)\<close> is \<^verbatim>\<open>None\<close>, and the
  assignment makes an object column of missing values.
\<close>

definition parse_created_date :: "library \<Rightarrow> frame \<Rightarrow> frame" where
  "parse_created_date L df =
     set_col ''Created Date''
       (case get df ''Created Date'' of
          None \<Rightarrow> all_na df
        | Some c \<Rightarrow> Stamp (to_datetime L c)) df"

fun extract_zip_value :: "string option \<Rightarrow> string option" where
  "extract_zip_value None = None"
| "extract_zip_value (Some s) = extract_zip s"

definition clean_zip :: "library \<Rightarrow> frame \<Rightarrow> frame" where
  "clean_zip L df =
     (case get df ''ZIP Code'' of
        None \<Rightarrow> df
      | Some c \<Rightarrow> set_col ''ZIP Code'' (Text (map extract_zip_value (astype_string L c))) df)"

text \<open>
  \<^verbatim>\<open>.astype("Int64")\<close> of a float column: a missing value stays missing, a whole number
  becomes that integer, anything else (a fraction, an infinity) raises.
\<close>

fun int64_of :: "f64 \<Rightarrow> int option" where
  "int64_of (Fin neg m d) =
     (if m mod 10 ^ d = 0 then Some (if neg then - int (m div 10 ^ d) else int (m div 10 ^ d))
      else None)"
| "int64_of PInf = None"
| "int64_of NInf = None"

fun int64_value :: "f64 option \<Rightarrow> int option" where
  "int64_value None = None"
| "int64_value (Some x) = int64_of x"

fun castable :: "f64 option \<Rightarrow> bool" where
  "castable None = True"
| "castable (Some x) = (int64_of x \<noteq> None)"

definition astype_Int64 :: "f64 option list \<Rightarrow> error + int option list" where
  "astype_Int64 xs = (if list_all castable xs then Inr (map int64_value xs) else Inl CastError)"

definition clean_council_district :: "library \<Rightarrow> frame \<Rightarrow> error + frame" where
  "clean_council_district L df =
     (case get df ''Council District'' of
        None \<Rightarrow> Inr df
      | Some c \<Rightarrow>
          (case astype_Int64 (to_numeric L c) of
             Inl e \<Rightarrow> Inl e
           | Inr xs \<Rightarrow> Inr (set_col ''Council District'' (Integer xs) df)))"

definition numeric_col :: "library \<Rightarrow> string \<Rightarrow> frame \<Rightarrow> frame" where
  "numeric_col L name df =
     (case get df name of
        None \<Rightarrow> df
      | Some c \<Rightarrow> set_col name (Float (to_numeric L c)) df)"

text \<open>\<^verbatim>\<open>df.loc[mask_00, ["Latitude", "Longitude"]] = np.nan\<close>, when both columns are there.\<close>

definition mask_rows :: "f64 option list \<Rightarrow> f64 option list \<Rightarrow> f64 option list \<Rightarrow> f64 option list" where
  "mask_rows lat lon xs =
     map (\<lambda>(x, a, b). if mask_00 a b then None else x) (zip xs (zip lat lon))"

definition mask_zero_coordinates :: "library \<Rightarrow> frame \<Rightarrow> frame" where
  "mask_zero_coordinates L df =
     (case (get df ''Latitude'', get df ''Longitude'') of
        (Some lat, Some lon) \<Rightarrow>
          set_col ''Longitude'' (Float (mask_rows (to_numeric L lat) (to_numeric L lon) (to_numeric L lon)))
            (set_col ''Latitude'' (Float (mask_rows (to_numeric L lat) (to_numeric L lon) (to_numeric L lat))) df)
      | _ \<Rightarrow> df)"

text \<open>The loop over \<^verbatim>\<open>df.columns\<close>: \<open>std_text\<close> on each object or string column.\<close>

fun std_text_col :: "library \<Rightarrow> column \<Rightarrow> column" where
  "std_text_col L (Text xs) = Text (std_text L (Text xs))"
| "std_text_col L c = c"

definition standardize_text :: "library \<Rightarrow> frame \<Rightarrow> frame" where
  "standardize_text L df = df\<lparr>cols := map (\<lambda>p. (fst p, std_text_col L (snd p))) (cols df)\<rparr>"

definition drop_column :: "string \<Rightarrow> frame \<Rightarrow> frame" where
  "drop_column name df = df\<lparr>cols := filter (\<lambda>p. fst p \<noteq> name) (cols df)\<rparr>"

definition safe_unknown_cols :: "string list" where
  "safe_unknown_cols =
     [''Police Precinct'', ''Status'', ''Method Received'',
      ''Where is the Illegal Dumping Violation located?'',
      ''Choose a description of the Illegal Dumping'',
      ''Location'']"

text \<open>
  \<^verbatim>\<open>df[col].fillna("Unknown")\<close>. On a numeric column pandas gives an object column of the
  numbers and the text; it is held here as the text \<^verbatim>\<open>astype("string")\<close> makes of it,
  which is all that every later reader of these six columns takes.
\<close>

definition fillna_unknown :: "library \<Rightarrow> column \<Rightarrow> column" where
  "fillna_unknown L c = Text (map (\<lambda>x. fillna x (Some ''Unknown'')) (astype_string L c))"

fun fill_unknown :: "library \<Rightarrow> string list \<Rightarrow> frame \<Rightarrow> frame" where
  "fill_unknown L [] df = df"
| "fill_unknown L (name # names) df =
     fill_unknown L names
       (case get df name of
          None \<Rightarrow> df
        | Some c \<Rightarrow> set_col name (fillna_unknown L c) df)"

text \<open>
  The derived calendar columns read \<^verbatim>\<open>df["Created Date"].dt\<close>, which raises unless the
  column holds timestamps.
\<close>

definition derive_features :: "library \<Rightarrow> frame \<Rightarrow> error + frame" where
  "derive_features L df =
     (case get df ''Created Date'' of
        Some (Stamp ts) \<Rightarrow>
          Inr (set_col ''Hour'' (Integer (map (map_option (hour_of L)) ts))
              (set_col ''Weekday'' (Text (map (map_option (day_name L)) ts))
              (set_col ''Day'' (Integer (map (map_option (day_of L)) ts))
              (set_col ''Month'' (Integer (map (map_option (month_of L)) ts))
              (set_col ''Year'' (Integer (map (map_option (year_of L)) ts)) df)))))
      | _ \<Rightarrow> Inl AttributeError)"

definition load_and_clean :: "library \<Rightarrow> frame \<Rightarrow> error + frame" where
  "load_and_clean L df =
     (case clean_council_district L (clean_zip L (parse_created_date L df)) of
        Inl e \<Rightarrow> Inl e
      | Inr df3 \<Rightarrow>
          derive_features L
            (fill_unknown L safe_unknown_cols
              (drop_column ''Community Reporting Area''
                (standardize_text L
                  (mask_zero_coordinates L
                    (numeric_col L ''Longitude'' (numeric_col L ''Latitude'' df3)))))))"

subsection \<open>Duplicates and missing values\<close>

text \<open>
  \<^verbatim>\<open>Series.duplicated()\<close> marks every value that stands earlier in the column, a missing
  value like any other (two missing values are duplicates of each other).
  \<^verbatim>\<open>drop_duplicates\<close> keeps the rows that are not marked (\<open>first_rows\<close> is that mask).
\<close>

fun duplicated_from :: "'a list \<Rightarrow> 'a list \<Rightarrow> bool list" where
  "duplicated_from seen [] = []"
| "duplicated_from seen (x # xs) = (x \<in> set seen) # duplicated_from (x # seen) xs"

definition duplicated :: "'a list \<Rightarrow> bool list" where
  "duplicated xs = duplicated_from [] xs"

definition count_true :: "bool list \<Rightarrow> nat" where
  "count_true bs = length (filter (\<lambda>b. b) bs)"

definition any_true :: "bool list \<Rightarrow> bool" where
  "any_true bs = list_ex (\<lambda>b. b) bs"

definition first_rows :: "'a list \<Rightarrow> bool list" where
  "first_rows xs = map (\<lambda>b. \<not> b) (duplicated xs)"

definition drop_duplicates :: "'a list \<Rightarrow> 'a list" where
  "drop_duplicates xs = select_rows (first_rows xs) xs"

fun dropna :: "'a option list \<Rightarrow> 'a list" where
  "dropna [] = []"
| "dropna (None # xs) = dropna xs"
| "dropna (Some x # xs) = x # dropna xs"

definition isna :: "column \<Rightarrow> bool list" where
  "isna c = map (\<lambda>x. x = NA) (cells c)"

text \<open>\<^verbatim>\<open>a + b\<close> on string columns and \<^verbatim>\<open>a + "|"\<close>: missing where an operand is missing.\<close>

fun str_add :: "string option \<Rightarrow> string option \<Rightarrow> string option" where
  "str_add (Some a) (Some b) = Some (a @ b)"
| "str_add _ _ = None"

definition add_text :: "string option list \<Rightarrow> string \<Rightarrow> string option list" where
  "add_text xs t = map (\<lambda>x. str_add x (Some t)) xs"

definition add_series :: "string option list \<Rightarrow> string option list \<Rightarrow> string option list" where
  "add_series xs ys = map (\<lambda>p. str_add (fst p) (snd p)) (zip xs ys)"

subsection \<open>build_star_schema\<close>

record fact_table =
  ServiceRequestNumber :: column
  CreatedDateTime :: column
  CreatedDate :: column
  MethodReceived :: column
  Status :: column
  PolicePrecinct :: column
  CouncilDistrict :: column
  ZIPCode :: column
  ViolationLocatedAt :: column
  DumpingDescription :: column
  LocationKey :: column
  CategoryKey :: column

record dim_date_table =
  Date :: column
  Year :: column
  MonthNumber :: column
  MonthName :: column
  DayOfWeekNumber :: column
  DayOfWeekName :: column
  WeekOfYear :: column

record dim_location_table =
  loc_LocationKey :: column
  loc_Location :: column
  loc_Latitude :: column
  loc_Longitude :: column
  loc_ZIPCode :: column
  loc_PolicePrecinct :: column
  loc_CouncilDistrict :: column

record dim_category_table =
  cat_ViolationLocatedAt :: column
  cat_DumpingDescription :: column
  cat_CategoryKey :: column

record dim_intake_table =
  intake_MethodReceived :: column

record dim_status_table =
  status_Status :: column

record star_schema =
  fact :: fact_table
  dim_date :: dim_date_table
  dim_location :: dim_location_table
  dim_category :: dim_category_table
  dim_intake :: dim_intake_table
  dim_status :: dim_status_table

text \<open>\<^verbatim>\<open>dt.normalize()\<close>: the timestamp at midnight of its day.\<close>

definition normalize :: "timestamp \<Rightarrow> timestamp" where
  "normalize t = t - t mod 86400000000000"

text \<open>
  The fact table of lines 331 to 352. \<open>model_df.get("Council District")\<close> and
  \<open>model_df.get("ZIP Code")\<close> have no default: without the column the entry is \<^verbatim>\<open>None\<close>
  and the DataFrame constructor fills the column with it.
\<close>

definition build_fact ::
  "library \<Rightarrow> frame \<Rightarrow> timestamp option list \<Rightarrow> string option list \<Rightarrow> string option list \<Rightarrow>
   string option list \<Rightarrow> string option list \<Rightarrow> string option list \<Rightarrow> fact_table" where
  "build_fact L model_df created_dt method_received status precinct violation_located dumping_desc =
     \<lparr> ServiceRequestNumber = Text (std_text L (get_or_na model_df ''Service Request Number'')),
       CreatedDateTime = Stamp created_dt,
       CreatedDate = Stamp (map (map_option normalize) created_dt),
       MethodReceived = Text method_received,
       Status = Text status,
       PolicePrecinct = Text precinct,
       CouncilDistrict = get_or_na model_df ''Council District'',
       ZIPCode = get_or_na model_df ''ZIP Code'',
       ViolationLocatedAt = Text violation_located,
       DumpingDescription = Text dumping_desc,
       LocationKey = get_or_na model_df ''LocationKey'',
       CategoryKey =
         Text (add_series (add_text (std_upper_key L (Text violation_located)) ''|'')
                          (std_upper_key L (Text dumping_desc))) \<rparr>"

definition build_dim_date :: "library \<Rightarrow> timestamp option list \<Rightarrow> dim_date_table" where
  "build_dim_date L created_date =
     (let dt = sort (drop_duplicates (dropna created_date))
      in \<lparr> Date = Stamp (map Some dt),
           Year = Integer (map (\<lambda>t. Some (year_of L t)) dt),
           MonthNumber = Integer (map (\<lambda>t. Some (month_of L t)) dt),
           MonthName = Text (map (\<lambda>t. Some (month_name L t)) dt),
           DayOfWeekNumber = Integer (map (\<lambda>t. Some (dayofweek_of L t)) dt),
           DayOfWeekName = Text (map (\<lambda>t. Some (day_name L t)) dt),
           WeekOfYear = Integer (map (\<lambda>t. Some (isoweek_of L t)) dt) \<rparr>)"

definition dim_location_cols :: "string list" where
  "dim_location_cols =
     [''LocationKey'', ''Location'', ''Latitude'', ''Longitude'',
      ''ZIP Code'', ''Police Precinct'', ''Council District'']"

text \<open>
  \<^verbatim>\<open>model_df[[...]]\<close> raises \<^verbatim>\<open>KeyError\<close> with the names that are no columns. The rows kept
  are the first of each \<^verbatim>\<open>LocationKey\<close>.
\<close>

definition build_dim_location :: "library \<Rightarrow> frame \<Rightarrow> error + dim_location_table" where
  "build_dim_location L model_df =
     (let missing = filter (\<lambda>name. \<not> has_col model_df name) dim_location_cols
      in if missing \<noteq> [] then Inl (KeyError missing)
         else
           let keep = first_rows (cells (get_or_na model_df ''LocationKey''))
           in Inr \<lparr> loc_LocationKey = col_rows keep (get_or_na model_df ''LocationKey''),
                    loc_Location = col_rows keep (Text (std_text L (get_or_na model_df ''Location''))),
                    loc_Latitude = col_rows keep (get_or_na model_df ''Latitude''),
                    loc_Longitude = col_rows keep (get_or_na model_df ''Longitude''),
                    loc_ZIPCode = col_rows keep (get_or_na model_df ''ZIP Code''),
                    loc_PolicePrecinct =
                      col_rows keep (Text (std_text L (get_or_na model_df ''Police Precinct''))),
                    loc_CouncilDistrict = col_rows keep (get_or_na model_df ''Council District'') \<rparr>)"

text \<open>
  \<^verbatim>\<open>pd.DataFrame({...}).drop_duplicates()\<close> compares whole rows, here the pairs; the key
  is computed afterwards from the rows that are left.
\<close>

definition build_dim_category ::
  "library \<Rightarrow> string option list \<Rightarrow> string option list \<Rightarrow> dim_category_table" where
  "build_dim_category L violation_located dumping_desc =
     (let rows = drop_duplicates (zip violation_located dumping_desc);
          v = map fst rows;
          d = map snd rows
      in \<lparr> cat_ViolationLocatedAt = Text v,
           cat_DumpingDescription = Text d,
           cat_CategoryKey =
             Text (add_series (add_text (std_upper_key L (Text v)) ''|'')
                              (std_upper_key L (Text d))) \<rparr>)"

definition build_dim_intake :: "string option list \<Rightarrow> dim_intake_table" where
  "build_dim_intake method_received =
     \<lparr> intake_MethodReceived = Text (map Some (sort (drop_duplicates (dropna method_received)))) \<rparr>"

definition build_dim_status :: "string option list \<Rightarrow> dim_status_table" where
  "build_dim_status status =
     \<lparr> status_Status = Text (map Some (sort (drop_duplicates (dropna status)))) \<rparr>"

definition with_location_key :: "library \<Rightarrow> frame \<Rightarrow> frame" where
  "with_location_key L clean_df =
     set_col ''LocationKey''
       (Text (build_location_key L (get_or_na clean_df ''Location'')
                (get_or_na clean_df ''Latitude'') (get_or_na clean_df ''Longitude'')))
       clean_df"

text \<open>
  Without a \<^verbatim>\<open>Created Date\<close> column \<open>created_dt\<close> is \<^verbatim>\<open>None\<close> and \<^verbatim>\<open>created_dt.dt\<close>
  raises while the fact table is built.
\<close>

definition build_star_schema :: "library \<Rightarrow> frame \<Rightarrow> error + star_schema" where
  "build_star_schema L clean_df =
     (let model_df = with_location_key L clean_df
      in case get model_df ''Created Date'' of
           None \<Rightarrow> Inl AttributeError
         | Some c \<Rightarrow>
             let created_dt = to_datetime L c;
                 method_received = std_text L (get_or_na model_df ''Method Received'');
                 status = std_text L (get_or_na model_df ''Status'');
                 precinct = std_text L (get_or_na model_df ''Police Precinct'');
                 violation_located =
                   std_text L (get_or_na model_df ''Where is the Illegal Dumping Violation located?'');
                 dumping_desc =
                   std_text L (get_or_na model_df ''Choose a description of the Illegal Dumping'')
             in case build_dim_location L model_df of
                  Inl e \<Rightarrow> Inl e
                | Inr dl \<Rightarrow>
                    Inr \<lparr> fact = build_fact L model_df created_dt method_received status precinct
                                  violation_located dumping_desc,
                          dim_date = build_dim_date L (map (map_option normalize) created_dt),
                          dim_location = dl,
                          dim_category = build_dim_category L violation_located dumping_desc,
                          dim_intake = build_dim_intake method_received,
                          dim_status = build_dim_status status \<rparr>)"

subsection \<open>qa_and_export\<close>

text \<open>
  The export directory lives in a file system: the directories that exist and the files
  with what was written to each (the table; its CSV text is the library's business).
  \<^verbatim>\<open>mkdir(parents=True, exist_ok=True)\<close> makes the directory unless it is there.
  Failures of the operating system (a path that cannot be made or written) and what the
  script prints are not modelled.
\<close>

datatype table =
    FactTable fact_table
  | DimDate dim_date_table
  | DimLocation dim_location_table
  | DimCategory dim_category_table
  | DimIntake dim_intake_table
  | DimStatus dim_status_table

record filesystem =
  dirs :: "string list"
  files :: "(string \<times> table) list"

definition mkdir :: "string \<Rightarrow> filesystem \<Rightarrow> filesystem" where
  "mkdir path fs = fs\<lparr>dirs := (if path \<in> set (dirs fs) then dirs fs else dirs fs @ [path])\<rparr>"

definition to_csv :: "table \<Rightarrow> string \<Rightarrow> string \<Rightarrow> filesystem \<Rightarrow> filesystem" where
  "to_csv t export_dir name fs = fs\<lparr>files := assign (export_dir @ ''/'' @ name) t (files fs)\<rparr>"

definition grain_check :: "fact_table \<Rightarrow> error option" where
  "grain_check f =
     (let dup_sr = count_true (duplicated (cells (ServiceRequestNumber f)))
      in if dup_sr > 0
         then Some (ValueError (''Fact grain broken: '' @ str_nat dup_sr @
                                '' duplicate ServiceRequestNumber values found.''))
         else None)"

definition join_key_check :: "string \<Rightarrow> column \<Rightarrow> error option" where
  "join_key_check key_col c =
     (let nulls = count_true (isna c)
      in if nulls > 0
         then Some (ValueError (''Null join keys found in fact: '' @ key_col @ '' has '' @
                                str_nat nulls @ '' nulls.''))
         else None)"

definition dim_location_check :: "dim_location_table \<Rightarrow> error option" where
  "dim_location_check dl =
     (if any_true (duplicated (cells (loc_LocationKey dl)))
      then Some (ValueError ''dim_location has duplicate LocationKey values.'')
      else None)"

definition dim_category_check :: "dim_category_table \<Rightarrow> error option" where
  "dim_category_check dc =
     (if any_true (duplicated (cells (cat_CategoryKey dc)))
      then Some (ValueError ''dim_category has duplicate CategoryKey values.'')
      else None)"

text \<open>The gates in their order; the first that fails raises.\<close>

definition qa_checks :: "star_schema \<Rightarrow> error option" where
  "qa_checks t =
     (case grain_check (fact t) of
        Some e \<Rightarrow> Some e
      | None \<Rightarrow>
     (case join_key_check ''LocationKey'' (LocationKey (fact t)) of
        Some e \<Rightarrow> Some e
      | None \<Rightarrow>
     (case join_key_check ''CategoryKey'' (CategoryKey (fact t)) of
        Some e \<Rightarrow> Some e
      | None \<Rightarrow>
     (case dim_location_check (dim_location t) of
        Some e \<Rightarrow> Some e
      | None \<Rightarrow> dim_category_check (dim_category t)))))"

definition export_csvs :: "star_schema \<Rightarrow> string \<Rightarrow> filesystem \<Rightarrow> filesystem" where
  "export_csvs t export_dir fs =
     to_csv (DimStatus (dim_status t)) export_dir ''dim_status.csv''
       (to_csv (DimIntake (dim_intake t)) export_dir ''dim_intake.csv''
       (to_csv (DimCategory (dim_category t)) export_dir ''dim_category.csv''
       (to_csv (DimLocation (dim_location t)) export_dir ''dim_location.csv''
       (to_csv (DimDate (dim_date t)) export_dir ''dim_date.csv''
       (to_csv (FactTable (fact t)) export_dir ''fact_illegal_dumping.csv'' fs)))))"

text \<open>
  The result is the exception raised, if any, and the file system the call leaves: the
  directory is made before the first gate.
\<close>

definition qa_and_export :: "star_schema \<Rightarrow> string \<Rightarrow> filesystem \<Rightarrow> error option \<times> filesystem" where
  "qa_and_export t export_dir fs =
     (case qa_checks t of
        Some e \<Rightarrow> (Some e, mkdir export_dir fs)
      | None \<Rightarrow> (None, export_csvs t export_dir (mkdir export_dir fs)))"

subsection \<open>main\<close>

text \<open>
  The three steps of \<open>main\<close> on the frame read from the input file; the quality report
  between the first two only prints.
\<close>

definition main :: "library \<Rightarrow> frame \<Rightarrow> string \<Rightarrow> filesystem \<Rightarrow> error option \<times> filesystem" where
  "main L raw export_dir fs =
     (case load_and_clean L raw of
        Inl e \<Rightarrow> (Some e, fs)
      | Inr clean_df \<Rightarrow>
          (case build_star_schema L clean_df of
             Inl e \<Rightarrow> (Some e, fs)
           | Inr t \<Rightarrow> qa_and_export t export_dir fs))"

subsection \<open>An instance of the library\<close>

text \<open>
  The worked examples need the parameters at concrete functions. Here a number is a
  plain decimal numeral (an optional minus sign, digits, an optional fraction), a
  timestamp is a date written \<^verbatim>\<open>YYYY-MM-DD\<close>, and the calendar is the proleptic Gregorian
  one, Monday being day 0 of the week.
\<close>

definition digit_value :: "char \<Rightarrow> nat" where
  "digit_value c =
     (case map_of (zip ''0123456789'' [0, 1, 2, 3, 4, 5, 6, 7, 8, 9]) c of
        Some n \<Rightarrow> n
      | None \<Rightarrow> 0)"

definition nat_of_digits :: "string \<Rightarrow> nat" where
  "nat_of_digits s = foldl (\<lambda>n c. 10 * n + digit_value c) 0 s"

definition parse_unsigned :: "bool \<Rightarrow> string \<Rightarrow> f64 option" where
  "parse_unsigned neg s =
     (let whole = takeWhile is_digit s
      in if whole = [] then None
         else case dropWhile is_digit s of
                [] \<Rightarrow> Some (Fin neg (nat_of_digits whole) 0)
              | c # frac \<Rightarrow>
                  if c = CHR ''.'' \<and> frac \<noteq> [] \<and> list_all is_digit frac
                  then Some (Fin neg (nat_of_digits (whole @ frac)) (length frac))
                  else None)"

fun parse_decimal :: "string \<Rightarrow> f64 option" where
  "parse_decimal [] = None"
| "parse_decimal (c # cs) = (if c = CHR ''-'' then parse_unsigned True cs else parse_unsigned False (c # cs))"

definition day_ns :: int where
  "day_ns = 86400000000000"

definition shifted_year :: "int \<Rightarrow> int \<Rightarrow> int" where
  "shifted_year y m = (if m \<le> 2 then y - 1 else y)"

definition day_of_shifted_year :: "int \<Rightarrow> int \<Rightarrow> int" where
  "day_of_shifted_year m d = (153 * (if m > 2 then m - 3 else m + 9) + 2) div 5 + d - 1"

definition days_of_shifted :: "int \<Rightarrow> int \<Rightarrow> int" where
  "days_of_shifted y1 doy =
     (y1 div 400) * 146097 + (y1 mod 400) * 365 + (y1 mod 400) div 4 - (y1 mod 400) div 100 + doy
     - 719468"

definition days_from_civil :: "int \<Rightarrow> int \<Rightarrow> int \<Rightarrow> int" where
  "days_from_civil y m d = days_of_shifted (shifted_year y m) (day_of_shifted_year m d)"

definition civil_from_mp :: "int \<Rightarrow> int \<Rightarrow> int \<Rightarrow> int \<times> int \<times> int" where
  "civil_from_mp y1 doy mp =
     (if mp < 10 then (y1, mp + 3, doy - (153 * mp + 2) div 5 + 1)
      else (y1 + 1, mp - 9, doy - (153 * mp + 2) div 5 + 1))"

definition civil_from_doy :: "int \<Rightarrow> int \<Rightarrow> int \<times> int \<times> int" where
  "civil_from_doy y1 doy = civil_from_mp y1 doy ((5 * doy + 2) div 153)"

definition civil_from_yoe :: "int \<Rightarrow> int \<Rightarrow> int \<Rightarrow> int \<times> int \<times> int" where
  "civil_from_yoe era doe yoe =
     civil_from_doy (yoe + era * 400) (doe - (365 * yoe + yoe div 4 - yoe div 100))"

definition civil_from_doe :: "int \<Rightarrow> int \<Rightarrow> int \<times> int \<times> int" where
  "civil_from_doe era doe =
     civil_from_yoe era doe ((doe - doe div 1460 + doe div 36524 - doe div 146096) div 365)"

definition civil_from_days :: "int \<Rightarrow> int \<times> int \<times> int" where
  "civil_from_days z = civil_from_doe ((z + 719468) div 146097) ((z + 719468) mod 146097)"

definition date_of_civil :: "int \<Rightarrow> int \<Rightarrow> int \<Rightarrow> timestamp option" where
  "date_of_civil y m d =
     (if civil_from_days (days_from_civil y m d) = (y, m, d)
      then Some (days_from_civil y m d * day_ns)
      else None)"

fun parse_date :: "string \<Rightarrow> timestamp option" where
  "parse_date [y1, y2, y3, y4, s1, m1, m2, s2, d1, d2] =
     (if list_all is_digit [y1, y2, y3, y4, m1, m2, d1, d2] \<and> s1 = CHR ''-'' \<and> s2 = CHR ''-''
      then date_of_civil (int (nat_of_digits [y1, y2, y3, y4])) (int (nat_of_digits [m1, m2]))
             (int (nat_of_digits [d1, d2]))
      else None)"
| "parse_date _ = None"

definition civil_year :: "timestamp \<Rightarrow> int" where
  "civil_year t = fst (civil_from_days (t div day_ns))"

definition civil_month :: "timestamp \<Rightarrow> int" where
  "civil_month t = fst (snd (civil_from_days (t div day_ns)))"

definition civil_day :: "timestamp \<Rightarrow> int" where
  "civil_day t = snd (snd (civil_from_days (t div day_ns)))"

definition civil_weekday :: "timestamp \<Rightarrow> int" where
  "civil_weekday t = (t div day_ns + 3) mod 7"

definition long_year :: "int \<Rightarrow> bool" where
  "long_year y =
     ((y + y div 4 - y div 100 + y div 400) mod 7 = 4 \<or>
      (y - 1 + (y - 1) div 4 - (y - 1) div 100 + (y - 1) div 400) mod 7 = 3)"

definition isoweek_of_week :: "int \<Rightarrow> int \<Rightarrow> int" where
  "isoweek_of_week y w =
     (if w < 1 then (if long_year (y - 1) then 53 else 52)
      else if w = 53 \<and> \<not> long_year y then 1
      else w)"

definition civil_isoweek :: "timestamp \<Rightarrow> int" where
  "civil_isoweek t =
     isoweek_of_week (civil_year t)
       ((t div day_ns - days_from_civil (civil_year t) 1 1 + 1 - (civil_weekday t + 1) + 10) div 7)"

definition two_digits :: "int \<Rightarrow> string" where
  "two_digits n = pad_left 2 (str_nat (nat n))"

definition clock_str :: "int \<Rightarrow> string" where
  "clock_str s =
     two_digits (s div 3600) @ '':'' @ two_digits (s mod 3600 div 60) @ '':'' @ two_digits (s mod 60)"

definition civil_str :: "timestamp \<Rightarrow> string" where
  "civil_str t =
     pad_left 4 (str_int (civil_year t)) @ ''-'' @ two_digits (civil_month t) @ ''-'' @
     two_digits (civil_day t) @ '' '' @ clock_str ((t mod day_ns) div 1000000000)"

definition example_library :: library where
  "example_library =
     \<lparr> to_float = parse_decimal,
       to_timestamp = parse_date,
       stamp_str = civil_str,
       year_of = civil_year,
       month_of = civil_month,
       day_of = civil_day,
       hour_of = (\<lambda>t. (t mod day_ns) div 3600000000000),
       dayofweek_of = civil_weekday,
       isoweek_of = civil_isoweek,
       day_name = (\<lambda>t. [''Monday'', ''Tuesday'', ''Wednesday'', ''Thursday'', ''Friday'',
                         ''Saturday'', ''Sunday''] ! nat (civil_weekday t)),
       month_name = (\<lambda>t. [''January'', ''February'', ''March'', ''April'', ''May'', ''June'',
                           ''July'', ''August'', ''September'', ''October'', ''November'',
                           ''December''] ! nat (civil_month t - 1)) \<rparr>"

subsection \<open>Tables for the worked examples\<close>

text \<open>
  A table set given by its five key columns; every other column is missing throughout,
  and the date, intake and status dimensions are empty.
\<close>

definition na_like :: "'a list \<Rightarrow> column" where
  "na_like xs = Text (map (\<lambda>x. None) xs)"

definition example_fact :: "string option list \<Rightarrow> string option list \<Rightarrow> string option list \<Rightarrow> fact_table" where
  "example_fact request_numbers location_keys category_keys =
     \<lparr> ServiceRequestNumber = Text request_numbers,
       CreatedDateTime = Stamp (map (\<lambda>x. None) request_numbers),
       CreatedDate = Stamp (map (\<lambda>x. None) request_numbers),
       MethodReceived = na_like request_numbers,
       Status = na_like request_numbers,
       PolicePrecinct = na_like request_numbers,
       CouncilDistrict = na_like request_numbers,
       ZIPCode = na_like request_numbers,
       ViolationLocatedAt = na_like request_numbers,
       DumpingDescription = na_like request_numbers,
       LocationKey = Text location_keys,
       CategoryKey = Text category_keys \<rparr>"

definition example_schema ::
  "string option list \<Rightarrow> string option list \<Rightarrow> string option list \<Rightarrow>
   string option list \<Rightarrow> string option list \<Rightarrow> star_schema" where
  "example_schema request_numbers location_keys category_keys dim_location_keys dim_category_keys =
     \<lparr> fact = example_fact request_numbers location_keys category_keys,
       dim_date = \<lparr> Date = Stamp [], Year = Integer [], MonthNumber = Integer [], MonthName = Text [],
                    DayOfWeekNumber = Integer [], DayOfWeekName = Text [], WeekOfYear = Integer [] \<rparr>,
       dim_location =
         \<lparr> loc_LocationKey = Text dim_location_keys,
           loc_Location = na_like dim_location_keys,
           loc_Latitude = na_like dim_location_keys,
           loc_Longitude = na_like dim_location_keys,
           loc_ZIPCode = na_like dim_location_keys,
           loc_PolicePrecinct = na_like dim_location_keys,
           loc_CouncilDistrict = na_like dim_location_keys \<rparr>,
       dim_category =
         \<lparr> cat_ViolationLocatedAt = na_like dim_category_keys,
           cat_DumpingDescription = na_like dim_category_keys,
           cat_CategoryKey = Text dim_category_keys \<rparr>,
       dim_intake = \<lparr> intake_MethodReceived = Text [] \<rparr>,
       dim_status = \<lparr> status_Status = Text [] \<rparr> \<rparr>"

definition empty_fs :: filesystem where
  "empty_fs = \<lparr> dirs = [], files = [] \<rparr>"

text \<open>
  A frame of three records as \<^verbatim>\<open>pd.read_csv\<close> returns it, after the end-to-end scenario
  of the specification: two reports at one site whose coordinates round to the same
  values and whose addresses are written differently, and one report with the (0,0)
  placeholder, a date and a council district that cannot be read, and no entry in four
  categorical fields. \<open>example_cleaned\<close> is what \<open>load_and_clean\<close> makes of it, and
  \<open>example_clean\<close> the same with another violation column.
\<close>

definition example_raw :: frame where
  "example_raw =
     \<lparr> nrows = 3,
       cols =
         [(''Service Request Number'', Text [Some ''23-00000001'', Some ''23-00000002'', Some ''23-00000003'']),
          (''Created Date'', Text [Some ''2023-01-02'', Some ''2023-01-02'', Some ''soon'']),
          (''Method Received'', Text [Some ''Find It Fix It Apps'', Some '' Phone '', None]),
          (''Status'', Text [Some ''Closed'', Some ''Open'', Some ''Closed'']),
          (''Where is the Illegal Dumping Violation located?'', Text [Some ''Alley'', Some ''Alley'', None]),
          (''Choose a description of the Illegal Dumping'', Text [Some ''Trash'', Some ''Trash'', None]),
          (''Location'', Text [Some ''123 MAIN ST'', Some ''123 Main Street'', Some ''456 Oak Ave'']),
          (''ZIP Code'', Float [Some (Fin False 98101 0), Some (Fin False 98101 0), None]),
          (''Latitude'', Float [Some (Fin False 476062 4), Some (Fin False 4760621 5), Some (Fin False 0 0)]),
          (''Longitude'', Float [Some (Fin True 1223321 4), Some (Fin True 12233209 5), Some (Fin False 0 0)]),
          (''Police Precinct'', Text [Some ''West'', Some ''West'', None]),
          (''Council District'', Text [Some ''7'', Some ''7'', Some ''seven'']),
          (''Community Reporting Area'', Float [None, None, None])] \<rparr>"

definition example_cleaned :: frame where
  "example_cleaned =
     \<lparr> nrows = 3,
       cols =
         [(''Service Request Number'', Text [Some ''23-00000001'', Some ''23-00000002'', Some ''23-00000003'']),
          (''Created Date'', Stamp [Some 1672617600000000000, Some 1672617600000000000, None]),
          (''Method Received'', Text [Some ''Find It Fix It Apps'', Some ''Phone'', Some ''Unknown'']),
          (''Status'', Text [Some ''Closed'', Some ''Open'', Some ''Closed'']),
          (''Where is the Illegal Dumping Violation located?'', Text [Some ''Alley'', Some ''Alley'', Some ''Unknown'']),
          (''Choose a description of the Illegal Dumping'', Text [Some ''Trash'', Some ''Trash'', Some ''Unknown'']),
          (''Location'', Text [Some ''123 MAIN ST'', Some ''123 Main Street'', Some ''456 Oak Ave'']),
          (''ZIP Code'', Text [Some ''98101'', Some ''98101'', None]),
          (''Latitude'', Float [Some (Fin False 476062 4), Some (Fin False 4760621 5), None]),
          (''Longitude'', Float [Some (Fin True 1223321 4), Some (Fin True 12233209 5), None]),
          (''Police Precinct'', Text [Some ''West'', Some ''West'', Some ''Unknown'']),
          (''Council District'', Integer [Some 7, Some 7, None]),
          (''Year'', Integer [Some 2023, Some 2023, None]),
          (''Month'', Integer [Some 1, Some 1, None]),
          (''Day'', Integer [Some 2, Some 2, None]),
          (''Weekday'', Text [Some ''Monday'', Some ''Monday'', None]),
          (''Hour'', Integer [Some 0, Some 0, None])] \<rparr>"

definition example_clean :: "string option list \<Rightarrow> frame" where
  "example_clean violation =
     set_col ''Where is the Illegal Dumping Violation located?'' (Text violation) example_cleaned"

subsection \<open>Notions of the specification\<close>

text \<open>
  A model-level defect is what the three gates look for: a request number that stands
  twice in the fact table, a fact row without its location or category key, a key that
  stands twice in \<open>dim_location\<close> or \<open>dim_category\<close>. \<open>first_failure\<close> is the message
  of the first gate that finds one; the number of duplicates among the request numbers
  is the number of rows beyond the first of each value.
\<close>

text \<open>
  The Location Key as the specification derives it, first match first: the coordinate
  key when both coordinates are there and are not the (0,0) placeholder; else the
  address in upper case, without the characters outside \<^verbatim>\<open>[A-Z0-9 ]\<close>, its white space
  collapsed and trimmed, when that is not empty; else no key.
\<close>

definition normalize_address :: "string \<Rightarrow> string" where
  "normalize_address s = str_strip (collapse_ws (remove_special (str_upper s)))"

fun address_key :: "string option \<Rightarrow> string option" where
  "address_key None = None"
| "address_key (Some s) = (if normalize_address s = [] then None else Some (normalize_address s))"

fun spec_location_key :: "string option \<Rightarrow> f64 option \<Rightarrow> f64 option \<Rightarrow> string option" where
  "spec_location_key loc (Some a) (Some b) =
     (if eq_zero a \<and> eq_zero b then address_key loc
      else Some (float_str (round4 a) @ '','' @ float_str (round4 b)))"
| "spec_location_key loc _ _ = address_key loc"

text \<open>
  The five columns \<open>load_and_clean\<close> derives from the timestamp. A cleaned column keeps
  the missing values of the raw one when it is no longer than it and missing wherever
  the raw column is; it keeps them up to the fallback when such a cell may also read
  \<^verbatim>\<open>Unknown\<close>.
\<close>

definition derived_cols :: "string list" where
  "derived_cols = [''Year'', ''Month'', ''Day'', ''Weekday'', ''Hour'']"

definition na_kept :: "column \<Rightarrow> column \<Rightarrow> bool" where
  "na_kept c c' =
     (col_length c' \<le> col_length c \<and>
      list_all (\<lambda>i. cells c ! i \<noteq> NA \<or> cells c' ! i = NA) [0..<col_length c'])"

definition na_kept_or_unknown :: "column \<Rightarrow> column \<Rightarrow> bool" where
  "na_kept_or_unknown c c' =
     (col_length c' \<le> col_length c \<and>
      list_all (\<lambda>i. cells c ! i \<noteq> NA \<or> cells c' ! i = NA \<or> cells c' ! i = S ''Unknown'')
        [0..<col_length c'])"

definition first_failure :: "star_schema \<Rightarrow> string" where
  "first_failure t =
     (if \<not> distinct (cells (ServiceRequestNumber (fact t)))
      then ''Fact grain broken: '' @
           str_nat (length (cells (ServiceRequestNumber (fact t))) -
                    card (set (cells (ServiceRequestNumber (fact t))))) @
           '' duplicate ServiceRequestNumber values found.''
      else if NA \<in> set (cells (LocationKey (fact t)))
      then ''Null join keys found in fact: LocationKey has '' @
           str_nat (count_list (cells (LocationKey (fact t))) NA) @ '' nulls.''
      else if NA \<in> set (cells (CategoryKey (fact t)))
      then ''Null join keys found in fact: CategoryKey has '' @
           str_nat (count_list (cells (CategoryKey (fact t))) NA) @ '' nulls.''
      else if \<not> distinct (cells (loc_LocationKey (dim_location t)))
      then ''dim_location has duplicate LocationKey values.''
      else ''dim_category has duplicate CategoryKey values.'')"


definition model_defect :: "star_schema \<Rightarrow> bool" where
  "model_defect t =
     (\<not> (distinct (cells (ServiceRequestNumber (fact t))) \<and>
         NA \<notin> set (cells (LocationKey (fact t))) \<and>
         NA \<notin> set (cells (CategoryKey (fact t))) \<and>
         distinct (cells (loc_LocationKey (dim_location t))) \<and>
         distinct (cells (cat_CategoryKey (dim_category t)))))"

section \<open>Properties\<close>

subsection \<open>Duplicates\<close>

lemma length_duplicated_from [simp]: "length (duplicated_from seen xs) = length xs"
  by (induction xs arbitrary: seen) auto

lemma length_duplicated [simp]: "length (duplicated xs) = length xs"
  by (simp add: duplicated_def)

lemma any_duplicated_from:
  "any_true (duplicated_from seen xs) \<longleftrightarrow> \<not> (distinct xs \<and> set xs \<inter> set seen = {})"
  by (induction xs arbitrary: seen) (auto simp: any_true_def)

lemma any_duplicated: "any_true (duplicated xs) \<longleftrightarrow> \<not> distinct xs"
  by (simp add: duplicated_def any_duplicated_from)

lemma count_duplicated_from_zero:
  "count_true (duplicated_from seen xs) = 0 \<longleftrightarrow> distinct xs \<and> set xs \<inter> set seen = {}"
  by (induction xs arbitrary: seen) (auto simp: count_true_def)

lemma count_duplicated_pos: "0 < count_true (duplicated xs) \<longleftrightarrow> \<not> distinct xs"
  using count_duplicated_from_zero [of "[]" xs] by (auto simp: duplicated_def)

lemma select_first_from_set:
  "set (select_rows (map (\<lambda>b. \<not> b) (duplicated_from seen xs)) xs) = set xs - set seen"
  by (induction xs arbitrary: seen) (auto simp: select_rows_def)

lemma select_first_from_distinct:
  "distinct (select_rows (map (\<lambda>b. \<not> b) (duplicated_from seen xs)) xs)"
proof (induction xs arbitrary: seen)
  case Nil
  then show ?case by (simp add: select_rows_def)
next
  case (Cons x xs)
  have "x \<notin> set (select_rows (map (\<lambda>b. \<not> b) (duplicated_from (x # seen) xs)) xs)"
    by (simp add: select_first_from_set)
  with Cons [of "x # seen"] show ?case
    by (simp add: select_rows_def)
qed

lemma distinct_drop_duplicates: "distinct (drop_duplicates xs)"
  by (simp add: drop_duplicates_def first_rows_def duplicated_def select_first_from_distinct)

lemma set_drop_duplicates: "set (drop_duplicates xs) = set xs"
  by (simp add: drop_duplicates_def first_rows_def duplicated_def select_first_from_set)

lemma count_duplicated_from_ge:
  "count_list xs a \<le> count_true (duplicated_from seen xs) + (if a \<in> set seen then 0 else 1)"
proof (induction xs arbitrary: seen)
  case Nil
  then show ?case by simp
next
  case (Cons x xs)
  have ih: "count_list xs a
      \<le> count_true (duplicated_from (x # seen) xs) + (if a \<in> set (x # seen) then 0 else 1)"
    by (rule Cons)
  show ?case
  proof (cases "x = a")
    case True
    with ih show ?thesis by (auto simp: count_true_def)
  next
    case False
    with ih show ?thesis by (auto simp: count_true_def)
  qed
qed

lemma count_duplicated_ge: "count_list xs a \<le> Suc (count_true (duplicated xs))"
  using count_duplicated_from_ge [of xs a "[]"] by (simp add: duplicated_def)

lemma count_true_Cons: "count_true (b # bs) = (if b then Suc (count_true bs) else count_true bs)"
  by (simp add: count_true_def)

lemma count_duplicated_from_card:
  "count_true (duplicated_from seen xs) + card (set xs - set seen) = length xs"
proof (induction xs arbitrary: seen)
  case Nil
  then show ?case by (simp add: count_true_def)
next
  case (Cons x xs)
  have ih: "count_true (duplicated_from (x # seen) xs) + card (set xs - set (x # seen)) = length xs"
    by (rule Cons)
  show ?case
  proof (cases "x \<in> set seen")
    case True
    then have "set (x # xs) - set seen = set xs - set (x # seen)" by auto
    then have "card (set (x # xs) - set seen) = card (set xs - set (x # seen))" by (rule arg_cong)
    moreover have "count_true (duplicated_from seen (x # xs)) = Suc (count_true (duplicated_from (x # seen) xs))"
      using True by (simp add: count_true_Cons)
    ultimately show ?thesis using ih by simp
  next
    case False
    then have "set (x # xs) - set seen = insert x (set xs - set (x # seen))" by auto
    then have "card (set (x # xs) - set seen) = card (insert x (set xs - set (x # seen)))" by (rule arg_cong)
    also have "\<dots> = Suc (card (set xs - set (x # seen)))"
      by (rule card_insert_disjoint) auto
    finally have c: "card (set (x # xs) - set seen) = Suc (card (set xs - set (x # seen)))" .
    have "count_true (duplicated_from seen (x # xs)) = count_true (duplicated_from (x # seen) xs)"
      using False by (simp add: count_true_Cons)
    with c ih show ?thesis by simp
  qed
qed

lemma count_duplicated_card: "count_true (duplicated xs) = length xs - card (set xs)"
  using count_duplicated_from_card [of "[]" xs] by (simp add: duplicated_def)

lemma nth_duplicated_from:
  "i < length xs \<Longrightarrow> duplicated_from seen xs ! i = (xs ! i \<in> set seen \<union> set (take i xs))"
proof (induction xs arbitrary: seen i)
  case Nil
  then show ?case by simp
next
  case (Cons x xs)
  show ?case
  proof (cases i)
    case 0
    then show ?thesis by simp
  next
    case (Suc j)
    with Cons.prems have "j < length xs" by simp
    then have "duplicated_from (x # seen) xs ! j = (xs ! j \<in> set (x # seen) \<union> set (take j xs))"
      by (rule Cons.IH)
    with Suc show ?thesis by auto
  qed
qed

lemma nth_duplicated: "i < length xs \<Longrightarrow> duplicated xs ! i = (xs ! i \<in> set (take i xs))"
  by (simp add: duplicated_def nth_duplicated_from)

subsection \<open>The gates\<close>

lemma count_isna: "count_true (isna c) = count_list (cells c) NA"
proof -
  have "length (filter (\<lambda>b. b) (map (\<lambda>x. x = NA) xs)) = count_list xs NA" for xs :: "cell list"
    by (induction xs) auto
  then show ?thesis by (simp add: count_true_def isna_def)
qed


lemma count_isna_pos: "0 < count_true (isna c) \<longleftrightarrow> NA \<in> set (cells c)"
  by (simp add: count_isna count_list_0_iff zero_less_iff_neq_zero)


lemma files_mkdir: "files (mkdir path fs) = files fs"
  by (simp add: mkdir_def)


lemma qa_and_export_raises:
  "qa_checks t = Some e \<Longrightarrow>
   fst (qa_and_export t path fs) = Some e \<and> files (snd (qa_and_export t path fs)) = files fs"
  by (simp add: qa_and_export_def files_mkdir)


lemma grain_check_fails:
  "\<not> distinct (cells (ServiceRequestNumber f)) \<Longrightarrow>
   grain_check f = Some (ValueError (''Fact grain broken: '' @
     str_nat (count_true (duplicated (cells (ServiceRequestNumber f)))) @
     '' duplicate ServiceRequestNumber values found.''))"
  by (simp add: grain_check_def count_duplicated_pos Let_def)


lemma grain_check_passes: "distinct (cells (ServiceRequestNumber f)) \<Longrightarrow> grain_check f = None"
  using count_duplicated_pos [of "cells (ServiceRequestNumber f)"] by (simp add: grain_check_def Let_def)


lemma join_key_check_fails:
  "NA \<in> set (cells c) \<Longrightarrow>
   join_key_check key_col c = Some (ValueError (''Null join keys found in fact: '' @ key_col @
     '' has '' @ str_nat (count_list (cells c) NA) @ '' nulls.''))"
  using count_isna_pos [of c] by (simp add: join_key_check_def Let_def count_isna)


lemma join_key_check_passes: "NA \<notin> set (cells c) \<Longrightarrow> join_key_check key_col c = None"
  using count_isna_pos [of c] by (simp add: join_key_check_def Let_def)


lemma dim_location_check_iff:
  "dim_location_check dl = (if distinct (cells (loc_LocationKey dl)) then None
     else Some (ValueError ''dim_location has duplicate LocationKey values.''))"
  by (simp add: dim_location_check_def any_duplicated)


lemma dim_category_check_iff:
  "dim_category_check dc = (if distinct (cells (cat_CategoryKey dc)) then None
     else Some (ValueError ''dim_category has duplicate CategoryKey values.''))"
  by (simp add: dim_category_check_def any_duplicated)


lemma qa_checks_defect: "model_defect t \<Longrightarrow> qa_checks t = Some (ValueError (first_failure t))"
  unfolding qa_checks_def model_defect_def first_failure_def
  by (auto simp: grain_check_fails grain_check_passes join_key_check_fails join_key_check_passes
        dim_location_check_iff dim_category_check_iff count_duplicated_card)


lemma qa_checks_clean: "\<not> model_defect t \<Longrightarrow> qa_checks t = None"
  unfolding qa_checks_def model_defect_def
  by (simp add: grain_check_passes join_key_check_passes dim_location_check_iff dim_category_check_iff)

subsection \<open>Evaluation\<close>

lemmas example_defs = example_schema_def example_fact_def na_like_def empty_fs_def

lemma str_nat_small: "n < 10 \<Longrightarrow> str_nat n = [digit_char n]"
  by (simp add: str_nat.simps)

lemma str_nat_big: "10 \<le> n \<Longrightarrow> str_nat n = str_nat (n div 10) @ [digit_char n]"
  by (subst str_nat.simps) simp

lemmas eval_qa = qa_and_export_def mkdir_def qa_checks_def grain_check_def join_key_check_def
  dim_location_check_def dim_category_check_def duplicated_def count_true_def any_true_def isna_def
  str_nat_small str_nat_big digit_char_def

lemma distinct_count_le_1: "distinct xs \<Longrightarrow> count_list xs a \<le> 1"
  by (induction xs) auto

lemmas eval_text = replace_na_def str_strip_def str_upper_def upper_char_def is_space_def
  remove_special_def is_upper_alnum_space_def

lemmas eval_num = round_scaled_def frac_digits_def str_nat_small str_nat_big digit_char_def Let_def

lemmas eval_key = location_key_def geo_key_def mask_00_def fillna_def

lemmas eval_frame = get_def get_or_na_def all_na_def has_col_def set_col_def

lemma example_library_fields:
  "to_float example_library = parse_decimal"
  "to_timestamp example_library = parse_date"
  "stamp_str example_library = civil_str"
  "year_of example_library = civil_year"
  "month_of example_library = civil_month"
  "day_of example_library = civil_day"
  "hour_of example_library t = (t mod day_ns) div 3600000000000"
  "dayofweek_of example_library = civil_weekday"
  "isoweek_of example_library = civil_isoweek"
  "day_name example_library t =
     [''Monday'', ''Tuesday'', ''Wednesday'', ''Thursday'', ''Friday'', ''Saturday'', ''Sunday''] !
       nat (civil_weekday t)"
  "month_name example_library t =
     [''January'', ''February'', ''March'', ''April'', ''May'', ''June'', ''July'', ''August'',
      ''September'', ''October'', ''November'', ''December''] ! nat (civil_month t - 1)"
  by (simp_all add: example_library_def)

lemmas eval_parse = example_library_fields parse_unsigned_def is_digit_def nat_of_digits_def digit_value_def

lemmas eval_calendar = day_ns_def shifted_year_def day_of_shifted_year_def days_of_shifted_def
  days_from_civil_def civil_from_mp_def civil_from_doy_def civil_from_yoe_def civil_from_doe_def
  civil_from_days_def date_of_civil_def civil_year_def civil_month_def civil_day_def civil_weekday_def

subsection \<open>The integrity validator\<close>

text \<open>
  C4, as the code has it. When the table set has a model-level defect, \<open>qa_and_export\<close>
  raises the error of the first gate that fails and no file is written: the files are
  those there were before the call. The message
  names the gate; it carries the number of violations for the grain gate and for the
  two join key gates, and no number for the two dimension gates.
\<close>

theorem qa_and_export_all_or_nothing:
  assumes "model_defect t"
  shows "fst (qa_and_export t export_dir fs) = Some (ValueError (first_failure t)) \<and>
         files (snd (qa_and_export t export_dir fs)) = files fs"
  using assms by (simp add: qa_and_export_raises qa_checks_defect)

text \<open>
  The theorem at a table set with two repeated request numbers, and at one with three
  fact rows without a location key.
\<close>

theorem qa_and_export_all_or_nothing_witness:
  "fst (qa_and_export
          (example_schema [Some ''SR1'', Some ''SR2'', Some ''SR1'', Some ''SR1''] [Some ''A'', None, None, None]
             [Some ''X|Y'', Some ''X|Y'', Some ''X|Y'', Some ''X|Y''] [Some ''A''] [Some ''X|Y''])
          ''exports'' empty_fs)
     = Some (ValueError ''Fact grain broken: 2 duplicate ServiceRequestNumber values found.'') \<and>
   fst (qa_and_export
          (example_schema [Some ''SR1'', Some ''SR2'', Some ''SR3'', Some ''SR4''] [Some ''A'', None, None, None]
             [Some ''X|Y'', Some ''X|Y'', Some ''X|Y'', Some ''X|Y''] [Some ''A''] [Some ''X|Y''])
          ''exports'' empty_fs)
     = Some (ValueError ''Null join keys found in fact: LocationKey has 3 nulls.'') \<and>
   files (snd (qa_and_export
          (example_schema [Some ''SR1'', Some ''SR2'', Some ''SR3'', Some ''SR4''] [Some ''A'', None, None, None]
             [Some ''X|Y'', Some ''X|Y'', Some ''X|Y'', Some ''X|Y''] [Some ''A''] [Some ''X|Y''])
          ''exports'' empty_fs)) = []"
proof -
  let ?t1 = "example_schema [Some ''SR1'', Some ''SR2'', Some ''SR1'', Some ''SR1''] [Some ''A'', None, None, None]
             [Some ''X|Y'', Some ''X|Y'', Some ''X|Y'', Some ''X|Y''] [Some ''A''] [Some ''X|Y'']"
  let ?t2 = "example_schema [Some ''SR1'', Some ''SR2'', Some ''SR3'', Some ''SR4''] [Some ''A'', None, None, None]
             [Some ''X|Y'', Some ''X|Y'', Some ''X|Y'', Some ''X|Y''] [Some ''A''] [Some ''X|Y'']"
  have d1: "model_defect ?t1" and d2: "model_defect ?t2"
    by (simp_all add: model_defect_def example_defs)
  have m1: "first_failure ?t1 = ''Fact grain broken: 2 duplicate ServiceRequestNumber values found.''"
    unfolding first_failure_def count_duplicated_card [symmetric]
    by (simp add: example_defs duplicated_def count_true_def str_nat_small digit_char_def)
  have m2: "first_failure ?t2 = ''Null join keys found in fact: LocationKey has 3 nulls.''"
    unfolding first_failure_def count_duplicated_card [symmetric]
    by (simp add: example_defs duplicated_def count_true_def str_nat_small digit_char_def)
  from qa_and_export_all_or_nothing [OF d1, of "''exports''" empty_fs]
    qa_and_export_all_or_nothing [OF d2, of "''exports''" empty_fs] m1 m2
  show ?thesis by (simp add: empty_fs_def)
qed

text \<open>
  C4 as stated asks every error to name the violation count. A \<open>dim_location\<close> with one
  repeated key and one with three raise the same error, which has no number in it.
\<close>

theorem dim_location_error_names_no_count:
  "fst (qa_and_export
          (example_schema [Some ''SR1''] [Some ''A''] [Some ''X|Y''] [Some ''A'', Some ''A''] [Some ''X|Y''])
          ''exports'' empty_fs)
     = Some (ValueError ''dim_location has duplicate LocationKey values.'') \<and>
   fst (qa_and_export
          (example_schema [Some ''SR1''] [Some ''A''] [Some ''X|Y'']
             [Some ''A'', Some ''A'', Some ''A'', Some ''B'', Some ''B''] [Some ''X|Y''])
          ''exports'' empty_fs)
     = Some (ValueError ''dim_location has duplicate LocationKey values.'') \<and>
   count_true (duplicated [Some ''A'', Some ''A'']) = 1 \<and>
   count_true (duplicated [Some ''A'', Some ''A'', Some ''A'', Some ''B'', Some ''B'']) = 3"
  by (simp add: eval_qa example_defs)

text \<open>
  C10. With two or more missing request numbers in the fact table, \<open>qa_and_export\<close>
  raises the grain error: its count is
  that of \<^verbatim>\<open>duplicated()\<close>, which is at least the number of missing values but one,
  since every missing value after the first is marked a duplicate. No file is written.
\<close>

theorem grain_check_counts_absent_as_duplicates:
  assumes "2 \<le> count_list (cells (ServiceRequestNumber (fact t))) NA"
  shows "fst (qa_and_export t export_dir fs) =
           Some (ValueError (''Fact grain broken: '' @
             str_nat (count_true (duplicated (cells (ServiceRequestNumber (fact t))))) @
             '' duplicate ServiceRequestNumber values found.'')) \<and>
         count_list (cells (ServiceRequestNumber (fact t))) NA
           \<le> Suc (count_true (duplicated (cells (ServiceRequestNumber (fact t))))) \<and>
         (\<forall>j < length (cells (ServiceRequestNumber (fact t))).
            cells (ServiceRequestNumber (fact t)) ! j = NA \<and>
            NA \<in> set (take j (cells (ServiceRequestNumber (fact t)))) \<longrightarrow>
            duplicated (cells (ServiceRequestNumber (fact t))) ! j) \<and>
         files (snd (qa_and_export t export_dir fs)) = files fs"
proof -
  let ?xs = "cells (ServiceRequestNumber (fact t))"
  have "\<not> distinct ?xs"
  proof
    assume "distinct ?xs"
    then have "count_list ?xs NA \<le> 1"
      by (rule distinct_count_le_1)
    with assms show False by simp
  qed
  then have g: "grain_check (fact t) = Some (ValueError (''Fact grain broken: '' @
             str_nat (count_true (duplicated ?xs)) @ '' duplicate ServiceRequestNumber values found.''))"
    by (rule grain_check_fails)
  then have "qa_checks t = Some (ValueError (''Fact grain broken: '' @
             str_nat (count_true (duplicated ?xs)) @ '' duplicate ServiceRequestNumber values found.''))"
    by (simp add: qa_checks_def)
  then show ?thesis
    by (simp add: qa_and_export_raises count_duplicated_ge nth_duplicated)
qed

text \<open>
  The theorem at a fact table with three missing request numbers and no request number
  that repeats.
\<close>

theorem grain_check_counts_absent_as_duplicates_witness:
  "fst (qa_and_export
          (example_schema [None, Some ''SR1'', None, None] [Some ''A'', Some ''A'', Some ''A'', Some ''A'']
             [Some ''X|Y'', Some ''X|Y'', Some ''X|Y'', Some ''X|Y''] [Some ''A''] [Some ''X|Y''])
          ''exports'' empty_fs)
     = Some (ValueError ''Fact grain broken: 2 duplicate ServiceRequestNumber values found.'') \<and>
   distinct (dropna [None, Some ''SR1'', None, None]) \<and>
   files (snd (qa_and_export
          (example_schema [None, Some ''SR1'', None, None] [Some ''A'', Some ''A'', Some ''A'', Some ''A'']
             [Some ''X|Y'', Some ''X|Y'', Some ''X|Y'', Some ''X|Y''] [Some ''A''] [Some ''X|Y''])
          ''exports'' empty_fs)) = []"
proof -
  let ?t = "example_schema [None, Some ''SR1'', None, None] [Some ''A'', Some ''A'', Some ''A'', Some ''A'']
             [Some ''X|Y'', Some ''X|Y'', Some ''X|Y'', Some ''X|Y''] [Some ''A''] [Some ''X|Y'']"
  have two: "2 \<le> count_list (cells (ServiceRequestNumber (fact ?t))) NA"
    by (simp add: example_defs)
  have n: "count_true (duplicated (cells (ServiceRequestNumber (fact ?t)))) = 2"
    by (simp add: example_defs duplicated_def count_true_def)
  from grain_check_counts_absent_as_duplicates [OF two, of "''exports''" empty_fs] n
  show ?thesis by (simp add: empty_fs_def str_nat_small digit_char_def)
qed

subsection \<open>The field normalizer\<close>

text \<open>
  Upper case and trimming commute, and no upper case text is one of the keys \<^verbatim>\<open>"None"\<close>
  and \<^verbatim>\<open>"nan"\<close> of the replacement table. So \<open>std_upper_key\<close> is the upper case of
  \<open>std_text\<close> on every value \<open>std_text\<close> keeps.
\<close>

lemma upper_char_cases:
  "upper_char c = c \<or> (c \<in> set ''abcdefghijklmnopqrstuvwxyz'' \<and> upper_char c \<in> set ''ABCDEFGHIJKLMNOPQRSTUVWXYZ'')"
  by (simp add: upper_char_def)

lemma letter_not_space:
  "c \<in> set ''abcdefghijklmnopqrstuvwxyz'' \<union> set ''ABCDEFGHIJKLMNOPQRSTUVWXYZ'' \<Longrightarrow> \<not> is_space c"
  by (auto simp: is_space_def)

lemma is_space_upper_char: "is_space (upper_char c) = is_space c"
proof (cases "upper_char c = c")
  case True
  then show ?thesis by simp
next
  case False
  with upper_char_cases [of c]
  have "c \<in> set ''abcdefghijklmnopqrstuvwxyz''"
    and "upper_char c \<in> set ''ABCDEFGHIJKLMNOPQRSTUVWXYZ''"
    by blast+
  then have "\<not> is_space c" and "\<not> is_space (upper_char c)"
    using letter_not_space [of c] letter_not_space [of "upper_char c"] by blast+
  then show ?thesis by simp
qed

lemma upper_char_not_lower: "upper_char c \<notin> set ''abcdefghijklmnopqrstuvwxyz''"
  using upper_char_cases [of c] by (auto simp: upper_char_def)

lemma dropWhile_space_upper:
  "dropWhile is_space (map upper_char s) = map upper_char (dropWhile is_space s)"
  by (induction s) (simp_all add: is_space_upper_char)

lemma str_strip_upper: "str_strip (str_upper s) = str_upper (str_strip s)"
  by (simp add: str_strip_def str_upper_def dropWhile_space_upper rev_map)

lemma str_upper_no_token: "str_upper t \<noteq> ''None'' \<and> str_upper t \<noteq> ''nan''"
proof -
  have "upper_char c \<noteq> CHR ''o''" and "upper_char c \<noteq> CHR ''a''" for c
    using upper_char_not_lower [of c] by simp_all
  then have "CHR ''o'' \<notin> set (str_upper t)" and "CHR ''a'' \<notin> set (str_upper t)"
    unfolding str_upper_def by (metis imageE list.set_map)+
  then show ?thesis by auto
qed

lemma std_upper_key_value_of_kept:
  assumes "std_text_value x = Some t"
  shows "std_upper_key_value x = Some (str_upper t)"
proof (cases x)
  case None
  with assms show ?thesis by simp
next
  case (Some s)
  with assms have t: "str_strip s = t" and "t \<noteq> []"
    by (auto simp: replace_na_def split: if_splits)
  then have "str_upper t \<noteq> []"
    by (simp add: str_upper_def)
  with Some t show ?thesis
    using str_upper_no_token [of t] by (simp add: str_strip_upper replace_na_def)
qed

text \<open>
  C5 fails on the code. \<open>std_upper_key\<close> puts the text in upper case before it looks
  for \<^verbatim>\<open>"None"\<close> and \<^verbatim>\<open>"nan"\<close>, which by then read \<^verbatim>\<open>"NONE"\<close> and \<^verbatim>\<open>"NAN"\<close>: the two
  markers that \<open>std_text\<close> takes for missing come out of \<open>std_upper_key\<close> as keys.
\<close>

theorem std_upper_key_keeps_no_value_tokens:
  "std_text L (Text [Some ''nan'', Some ''None'', Some ''  nan '']) = [None, None, None] \<and>
   std_upper_key L (Text [Some ''nan'', Some ''None'', Some ''  nan ''])
     = [Some ''NAN'', Some ''NONE'', Some ''NAN'']"
  by (simp add: std_text_def std_upper_key_def eval_text)

subsection \<open>The location key resolver\<close>

text \<open>
  The normalised address holds nothing but upper case letters, digits and blanks, so of
  the three keys of the replacement table only the empty text can match it.
\<close>

lemma set_str_strip: "set (str_strip s) \<subseteq> set s"
proof -
  have "set (dropWhile is_space (rev (dropWhile is_space s))) \<subseteq> set (rev (dropWhile is_space s))"
    by (rule set_dropWhileD [THEN subsetI])
  also have "\<dots> \<subseteq> set s"
    by (auto dest: set_dropWhileD)
  finally show ?thesis by (simp add: str_strip_def)
qed

lemma set_collapse_ws: "set (collapse_ws s) \<subseteq> insert (CHR '' '') (set s)"
  by (induction s rule: collapse_ws.induct) (auto dest: set_dropWhileD)

lemma set_remove_special: "set (remove_special s) \<subseteq> {c. is_upper_alnum_space c}"
  by (auto simp: remove_special_def)

lemma set_normalize_address: "set (normalize_address s) \<subseteq> {c. is_upper_alnum_space c}"
proof -
  have "set (normalize_address s) \<subseteq> insert (CHR '' '') (set (remove_special (str_upper s)))"
    unfolding normalize_address_def using set_str_strip set_collapse_ws by blast
  moreover have "is_upper_alnum_space (CHR '' '')"
    by (simp add: is_upper_alnum_space_def)
  ultimately show ?thesis using set_remove_special by blast
qed

lemma replace_na_normalize_address:
  "replace_na (normalize_address s) = (if normalize_address s = [] then None else Some (normalize_address s))"
proof -
  have "\<not> is_upper_alnum_space (CHR ''o'')" and "\<not> is_upper_alnum_space (CHR ''a'')"
    by (simp_all add: is_upper_alnum_space_def)
  then have "CHR ''o'' \<notin> set (normalize_address s)" and "CHR ''a'' \<notin> set (normalize_address s)"
    using set_normalize_address [of s] by auto
  then have "normalize_address s \<noteq> ''None''" and "normalize_address s \<noteq> ''nan''"
    by auto
  then show ?thesis by (simp add: replace_na_def)
qed

lemma loc_std_address_key: "loc_std x = address_key x"
  by (cases x) (simp_all add: replace_na_normalize_address normalize_address_def [symmetric])

lemma location_key_spec: "location_key loc a b = spec_location_key loc a b"
proof (cases a)
  case None
  then show ?thesis by (simp add: eval_key loc_std_address_key)
next
  case (Some x)
  show ?thesis
  proof (cases b)
    case None
    with Some show ?thesis by (simp add: eval_key loc_std_address_key)
  next
    case (Some y)
    with \<open>a = Some x\<close> show ?thesis by (simp add: eval_key loc_std_address_key Let_def)
  qed
qed



text \<open>
  Two records whose coordinates are not the placeholder and round to the same two
  floats get the same key.
\<close>

lemma location_key_stable:
  assumes "round4 a1 = round4 a2" and "round4 b1 = round4 b2"
    and "\<not> (eq_zero a1 \<and> eq_zero b1)" and "\<not> (eq_zero a2 \<and> eq_zero b2)"
  shows "location_key loc1 (Some a1) (Some b1) = location_key loc2 (Some a2) (Some b2)"
  using assms by (auto simp: location_key_spec)

text \<open>
  C1 fails on the code where a coordinate rounds to zero from both sides.
  \<^verbatim>\<open>round(4)\<close> keeps the sign, so -0.00001 rounds to the negative zero and 0.00001 to
  the positive one: equal as numbers (\<open>float_eq\<close>), printed \<^verbatim>\<open>-0.0\<close> and \<^verbatim>\<open>0.0\<close>. The two
  records below are 0.00002 degrees apart, neither is the (0, 0) placeholder, and they
  get different keys.
\<close>

theorem build_location_key_signed_zero:
  "build_location_key L (Text [Some ''Pier 1'', Some ''Pier 1''])
     (Float [Some (Fin True 1 5), Some (Fin False 1 5)])
     (Float [Some (Fin True 1223321 4), Some (Fin True 1223321 4)])
   = [Some ''-0.0,-122.3321'', Some ''0.0,-122.3321''] \<and>
   float_eq (round4 (Fin True 1 5)) (round4 (Fin False 1 5)) \<and>
   float_eq (round4 (Fin True 1223321 4)) (round4 (Fin True 1223321 4)) \<and>
   \<not> mask_00 (Some (Fin True 1 5)) (Some (Fin True 1223321 4)) \<and>
   \<not> mask_00 (Some (Fin False 1 5)) (Some (Fin True 1223321 4))"
  by (simp add: build_location_key_def) (simp add: eval_key eval_num)

subsection \<open>Frames\<close>

lemma map_of_assign: "map_of (assign name c ps) k = (if k = name then Some c else map_of ps k)"
  by (induction ps) auto

lemma fst_set_assign: "fst ` set (assign name c ps) = insert name (fst ` set ps)"
  by (induction ps) auto

lemma get_set_col: "get (set_col name c df) k = (if k = name then Some c else get df k)"
  by (simp add: get_def set_col_def map_of_assign)

lemma nrows_set_col [simp]: "nrows (set_col name c df) = nrows df"
  by (simp add: set_col_def)

lemma has_col_get: "has_col df name \<longleftrightarrow> get df name \<noteq> None"
  by (simp add: has_col_def get_def map_of_eq_None_iff)

lemma has_col_set_col: "has_col (set_col name c df) k \<longleftrightarrow> k = name \<or> has_col df k"
  by (simp add: has_col_get get_set_col)

lemma all_na_set_col [simp]: "all_na (set_col name c df) = all_na df"
  by (simp add: all_na_def)

lemma get_or_na_set_col:
  "get_or_na (set_col name c df) k = (if k = name then c else get_or_na df k)"
  by (simp add: get_or_na_def get_set_col split: option.splits)

lemma map_select_rows: "map f (select_rows keep xs) = select_rows keep (map f xs)"
  by (simp add: select_rows_def zip_map2 filter_map comp_def case_prod_unfold)

lemma cells_col_rows: "cells (col_rows keep c) = select_rows keep (cells c)"
  by (cases c) (simp_all add: map_select_rows)

lemma distinct_first_rows: "distinct (select_rows (first_rows xs) xs)"
  using distinct_drop_duplicates [of xs] by (simp add: drop_duplicates_def)

subsection \<open>The dimensional modeler\<close>

text \<open>
  \<open>dim_location\<close> keeps the first row of each LocationKey, and cannot be built unless
  the frame has all seven columns it selects.
\<close>

lemma build_dim_location_keys:
  assumes "build_dim_location L model_df = Inr dl"
  shows "distinct (cells (loc_LocationKey dl))"
proof -
  from assms have "loc_LocationKey dl =
      col_rows (first_rows (cells (get_or_na model_df ''LocationKey''))) (get_or_na model_df ''LocationKey'')"
    by (auto simp: build_dim_location_def Let_def split: if_splits)
  then show ?thesis by (simp add: cells_col_rows distinct_first_rows)
qed

lemma build_dim_location_cols:
  assumes "build_dim_location L model_df = Inr dl"
  shows "list_all (has_col model_df) dim_location_cols"
  using assms by (auto simp: build_dim_location_def Let_def list_all_iff filter_empty_conv split: if_splits)

lemma build_dim_location_missing:
  assumes "name \<in> set dim_location_cols" and "\<not> has_col model_df name"
  shows "build_dim_location L model_df = Inl (KeyError (filter (\<lambda>name. \<not> has_col model_df name) dim_location_cols))"
proof -
  from assms have "filter (\<lambda>name. \<not> has_col model_df name) dim_location_cols \<noteq> []"
    by (auto simp: filter_empty_conv)
  then show ?thesis by (simp add: build_dim_location_def Let_def)
qed

text \<open>What \<open>build_star_schema\<close> returned, when it returned.\<close>

lemma build_star_schema_Inr:
  assumes "build_star_schema L clean_df = Inr t"
  obtains c dl where
    "get clean_df ''Created Date'' = Some c"
    "build_dim_location L (with_location_key L clean_df) = Inr dl"
    "dim_location t = dl"
    "fact t = build_fact L (with_location_key L clean_df) (to_datetime L c)
        (std_text L (get_or_na (with_location_key L clean_df) ''Method Received''))
        (std_text L (get_or_na (with_location_key L clean_df) ''Status''))
        (std_text L (get_or_na (with_location_key L clean_df) ''Police Precinct''))
        (std_text L (get_or_na (with_location_key L clean_df) ''Where is the Illegal Dumping Violation located?''))
        (std_text L (get_or_na (with_location_key L clean_df) ''Choose a description of the Illegal Dumping''))"
    "dim_category t = build_dim_category L
        (std_text L (get_or_na (with_location_key L clean_df) ''Where is the Illegal Dumping Violation located?''))
        (std_text L (get_or_na (with_location_key L clean_df) ''Choose a description of the Illegal Dumping''))"
    "dim_date t = build_dim_date L (map (map_option normalize) (to_datetime L c))"
    "dim_intake t = build_dim_intake (std_text L (get_or_na (with_location_key L clean_df) ''Method Received''))"
    "dim_status t = build_dim_status (std_text L (get_or_na (with_location_key L clean_df) ''Status''))"
proof -
  from assms obtain c where c: "get (with_location_key L clean_df) ''Created Date'' = Some c"
    by (auto simp: build_star_schema_def Let_def split: option.splits)
  with assms obtain dl where dl: "build_dim_location L (with_location_key L clean_df) = Inr dl"
    by (auto simp: build_star_schema_def Let_def split: sum.splits)
  from c have c': "get clean_df ''Created Date'' = Some c"
    by (simp add: with_location_key_def get_set_col)
  from assms c dl have "t = \<lparr> fact = build_fact L (with_location_key L clean_df) (to_datetime L c)
        (std_text L (get_or_na (with_location_key L clean_df) ''Method Received''))
        (std_text L (get_or_na (with_location_key L clean_df) ''Status''))
        (std_text L (get_or_na (with_location_key L clean_df) ''Police Precinct''))
        (std_text L (get_or_na (with_location_key L clean_df) ''Where is the Illegal Dumping Violation located?''))
        (std_text L (get_or_na (with_location_key L clean_df) ''Choose a description of the Illegal Dumping'')),
      dim_date = build_dim_date L (map (map_option normalize) (to_datetime L c)),
      dim_location = dl,
      dim_category = build_dim_category L
        (std_text L (get_or_na (with_location_key L clean_df) ''Where is the Illegal Dumping Violation located?''))
        (std_text L (get_or_na (with_location_key L clean_df) ''Choose a description of the Illegal Dumping'')),
      dim_intake = build_dim_intake (std_text L (get_or_na (with_location_key L clean_df) ''Method Received'')),
      dim_status = build_dim_status (std_text L (get_or_na (with_location_key L clean_df) ''Status'')) \<rparr>"
    by (simp add: build_star_schema_def Let_def)
  with c' dl that show thesis by simp
qed

lemma category_key_series:
  "add_series (add_text (std_upper_key L (Text xs)) ''|'') (std_upper_key L (Text ys)) =
   map (\<lambda>p. str_add (str_add (std_upper_key_value (fst p)) (Some ''|'')) (std_upper_key_value (snd p)))
     (zip xs ys)"
  by (simp add: add_series_def add_text_def std_upper_key_def zip_map_map case_prod_unfold)

lemma zip_fst_snd: "zip (map fst ps) (map snd ps) = ps"
  by (induction ps) auto

lemma zip_map_fst_snd:
  "zip (map f (map fst ps)) (map g (map snd ps)) = map (\<lambda>p. (f (fst p), g (snd p))) ps"
  by (induction ps) auto

lemma cell_of_inject:
  "(case x of None \<Rightarrow> NA | Some s \<Rightarrow> S s) = (case y of None \<Rightarrow> NA | Some s \<Rightarrow> S s) \<longleftrightarrow> x = y"
  by (cases x; cases y) simp_all

lemma fact_category_columns:
  assumes "build_star_schema L clean_df = Inr t"
  obtains v d where
    "ViolationLocatedAt (fact t) = Text v" "DumpingDescription (fact t) = Text d"
    "CategoryKey (fact t) = Text (map (\<lambda>p. str_add (str_add (std_upper_key_value (fst p)) (Some ''|''))
        (std_upper_key_value (snd p))) (zip v d))"
    "cat_ViolationLocatedAt (dim_category t) = Text (map fst (drop_duplicates (zip v d)))"
    "cat_DumpingDescription (dim_category t) = Text (map snd (drop_duplicates (zip v d)))"
    "cat_CategoryKey (dim_category t) = Text (map (\<lambda>p. str_add (str_add (std_upper_key_value (fst p)) (Some ''|''))
        (std_upper_key_value (snd p))) (drop_duplicates (zip v d)))"
proof -
  from assms obtain c dl where
    f: "fact t = build_fact L (with_location_key L clean_df) (to_datetime L c)
        (std_text L (get_or_na (with_location_key L clean_df) ''Method Received''))
        (std_text L (get_or_na (with_location_key L clean_df) ''Status''))
        (std_text L (get_or_na (with_location_key L clean_df) ''Police Precinct''))
        (std_text L (get_or_na (with_location_key L clean_df) ''Where is the Illegal Dumping Violation located?''))
        (std_text L (get_or_na (with_location_key L clean_df) ''Choose a description of the Illegal Dumping''))"
    and dc: "dim_category t = build_dim_category L
        (std_text L (get_or_na (with_location_key L clean_df) ''Where is the Illegal Dumping Violation located?''))
        (std_text L (get_or_na (with_location_key L clean_df) ''Choose a description of the Illegal Dumping''))"
    by (rule build_star_schema_Inr)
  show thesis
    by (rule that [of "std_text L (get_or_na (with_location_key L clean_df) ''Where is the Illegal Dumping Violation located?'')"
          "std_text L (get_or_na (with_location_key L clean_df) ''Choose a description of the Illegal Dumping'')"])
       (simp_all add: f dc build_fact_def build_dim_category_def Let_def category_key_series zip_fst_snd)
qed

lemma distinct_map_cell:
  "distinct (map (\<lambda>x. case x of None \<Rightarrow> NA | Some s \<Rightarrow> S s) xs) = distinct xs"
  by (simp add: distinct_map inj_on_def cell_of_inject)

lemma dim_category_pairs_distinct:
  assumes "build_star_schema L clean_df = Inr t"
  shows "distinct (zip (cells (cat_ViolationLocatedAt (dim_category t)))
                       (cells (cat_DumpingDescription (dim_category t))))"
proof -
  from assms obtain v d where cols:
    "cat_ViolationLocatedAt (dim_category t) = Text (map fst (drop_duplicates (zip v d)))"
    "cat_DumpingDescription (dim_category t) = Text (map snd (drop_duplicates (zip v d)))"
    by (rule fact_category_columns)
  let ?rows = "drop_duplicates (zip v d)"
  let ?c = "\<lambda>x. case x of None \<Rightarrow> NA | Some s \<Rightarrow> S s"
  have z: "zip (cells (cat_ViolationLocatedAt (dim_category t))) (cells (cat_DumpingDescription (dim_category t)))
      = map (\<lambda>p. (?c (fst p), ?c (snd p))) ?rows"
    unfolding cols cells.simps by (rule zip_map_fst_snd)
  have "inj (\<lambda>p. (?c (fst p), ?c (snd p)))"
    by (rule injI) (simp add: cell_of_inject prod_eq_iff)
  then have "inj_on (\<lambda>p. (?c (fst p), ?c (snd p))) (set ?rows)"
    by (rule inj_on_subset) simp
  then show ?thesis
    unfolding z by (simp only: distinct_map distinct_drop_duplicates simp_thms)
qed

lemma dim_location_keys_distinct:
  assumes "build_star_schema L clean_df = Inr t"
  shows "distinct (cells (loc_LocationKey (dim_location t)))"
proof -
  from assms obtain dl where "build_dim_location L (with_location_key L clean_df) = Inr dl"
    and "dim_location t = dl"
    by (rule build_star_schema_Inr)
  then show ?thesis by (simp add: build_dim_location_keys)
qed

lemma small_dimensions_distinct:
  assumes "build_star_schema L clean_df = Inr t"
  shows "distinct (cells (Date (dim_date t))) \<and>
         distinct (cells (intake_MethodReceived (dim_intake t))) \<and>
         distinct (cells (status_Status (dim_status t)))"
proof -
  from assms obtain c where
    "dim_date t = build_dim_date L (map (map_option normalize) (to_datetime L c))"
    "dim_intake t = build_dim_intake (std_text L (get_or_na (with_location_key L clean_df) ''Method Received''))"
    "dim_status t = build_dim_status (std_text L (get_or_na (with_location_key L clean_df) ''Status''))"
    by (rule build_star_schema_Inr)
  then show ?thesis
    by (simp add: build_dim_date_def build_dim_intake_def build_dim_status_def Let_def
        distinct_map distinct_drop_duplicates inj_on_def comp_def)
qed

text \<open>The tables of the example frame.\<close>

lemma example_location_key:
  "get_or_na (with_location_key L (example_clean v)) ''LocationKey'' =
     Text [Some ''47.6062,-122.3321'', Some ''47.6062,-122.3321'', Some ''456 OAK AVE'']"
  by (simp add: with_location_key_def get_or_na_set_col)
     (simp add: example_clean_def example_cleaned_def eval_frame build_location_key_def location_key_spec
        normalize_address_def eval_text eval_num)

lemma example_get:
  "get (example_clean v) ''Created Date'' = Some (Stamp [Some 1672617600000000000, Some 1672617600000000000, None])"
  "get_or_na (example_clean v) ''Service Request Number'' = Text [Some ''23-00000001'', Some ''23-00000002'', Some ''23-00000003'']"
  "get_or_na (example_clean v) ''Method Received'' = Text [Some ''Find It Fix It Apps'', Some ''Phone'', Some ''Unknown'']"
  "get_or_na (example_clean v) ''Status'' = Text [Some ''Closed'', Some ''Open'', Some ''Closed'']"
  "get_or_na (example_clean v) ''Where is the Illegal Dumping Violation located?'' = Text v"
  "get_or_na (example_clean v) ''Choose a description of the Illegal Dumping'' = Text [Some ''Trash'', Some ''Trash'', Some ''Unknown'']"
  "get_or_na (example_clean v) ''Location'' = Text [Some ''123 MAIN ST'', Some ''123 Main Street'', Some ''456 Oak Ave'']"
  "get_or_na (example_clean v) ''ZIP Code'' = Text [Some ''98101'', Some ''98101'', None]"
  "get_or_na (example_clean v) ''Latitude'' = Float [Some (Fin False 476062 4), Some (Fin False 4760621 5), None]"
  "get_or_na (example_clean v) ''Longitude'' = Float [Some (Fin True 1223321 4), Some (Fin True 12233209 5), None]"
  "get_or_na (example_clean v) ''Police Precinct'' = Text [Some ''West'', Some ''West'', Some ''Unknown'']"
  "get_or_na (example_clean v) ''Council District'' = Integer [Some 7, Some 7, None]"
  by (simp_all add: example_clean_def example_cleaned_def eval_frame)

lemma example_has_cols: "list_all (has_col (example_clean v)) (tl dim_location_cols)"
  by (simp add: dim_location_cols_def example_clean_def example_cleaned_def has_col_def set_col_def)

lemma example_dim_location:
  "build_dim_location L (with_location_key L (example_clean v)) =
     Inr \<lparr> loc_LocationKey = Text [Some ''47.6062,-122.3321'', Some ''456 OAK AVE''],
           loc_Location = Text [Some ''123 MAIN ST'', Some ''456 Oak Ave''],
           loc_Latitude = Float [Some (Fin False 476062 4), None],
           loc_Longitude = Float [Some (Fin True 1223321 4), None],
           loc_ZIPCode = Text [Some ''98101'', None],
           loc_PolicePrecinct = Text [Some ''West'', Some ''Unknown''],
           loc_CouncilDistrict = Integer [Some 7, None] \<rparr>"
proof -
  have cols: "filter (\<lambda>name. \<not> has_col (with_location_key L (example_clean v)) name) dim_location_cols = []"
    using example_has_cols [of v]
    by (simp add: dim_location_cols_def with_location_key_def has_col_set_col)
  have rows: "first_rows (cells (get_or_na (with_location_key L (example_clean v)) ''LocationKey'')) = [True, False, True]"
    by (simp add: example_location_key first_rows_def duplicated_def)
  have other: "get_or_na (with_location_key L (example_clean v)) name = get_or_na (example_clean v) name"
    if "name \<noteq> ''LocationKey''" for name
    using that by (simp add: with_location_key_def get_or_na_set_col)
  show ?thesis
    unfolding build_dim_location_def Let_def cols rows
    by (simp add: example_location_key other example_get select_rows_def std_text_def eval_text)
qed

lemma example_builds: "\<exists>t. build_star_schema L (example_clean v) = Inr t"
proof -
  have c: "get (with_location_key L (example_clean v)) ''Created Date'' =
      Some (Stamp [Some 1672617600000000000, Some 1672617600000000000, None])"
    by (simp add: with_location_key_def get_set_col example_get)
  show ?thesis
    unfolding build_star_schema_def Let_def c example_dim_location by simp
qed

lemma example_other_cols:
  "name \<noteq> ''LocationKey'' \<Longrightarrow>
   get_or_na (with_location_key L (example_clean v)) name = get_or_na (example_clean v) name"
  by (simp add: with_location_key_def get_or_na_set_col)

lemma example_tables:
  assumes "build_star_schema L (example_clean v) = Inr t"
  shows "dim_location t =
           \<lparr> loc_LocationKey = Text [Some ''47.6062,-122.3321'', Some ''456 OAK AVE''],
             loc_Location = Text [Some ''123 MAIN ST'', Some ''456 Oak Ave''],
             loc_Latitude = Float [Some (Fin False 476062 4), None],
             loc_Longitude = Float [Some (Fin True 1223321 4), None],
             loc_ZIPCode = Text [Some ''98101'', None],
             loc_PolicePrecinct = Text [Some ''West'', Some ''Unknown''],
             loc_CouncilDistrict = Integer [Some 7, None] \<rparr>"
    and "LocationKey (fact t) = Text [Some ''47.6062,-122.3321'', Some ''47.6062,-122.3321'', Some ''456 OAK AVE'']"
    and "ServiceRequestNumber (fact t) = Text [Some ''23-00000001'', Some ''23-00000002'', Some ''23-00000003'']"
    and "CouncilDistrict (fact t) = Integer [Some 7, Some 7, None]"
    and "ViolationLocatedAt (fact t) = Text (std_text L (Text v))"
    and "DumpingDescription (fact t) = Text [Some ''Trash'', Some ''Trash'', Some ''Unknown'']"
    and "CategoryKey (fact t) =
           Text (add_series (add_text (std_upper_key L (Text (std_text L (Text v)))) ''|'')
                   [Some ''TRASH'', Some ''TRASH'', Some ''UNKNOWN''])"
    and "dim_category t =
           build_dim_category L (std_text L (Text v)) [Some ''Trash'', Some ''Trash'', Some ''Unknown'']"
proof -
  from assms obtain c dl where
    dl: "build_dim_location L (with_location_key L (example_clean v)) = Inr dl" "dim_location t = dl"
    and f: "fact t = build_fact L (with_location_key L (example_clean v)) (to_datetime L c)
        (std_text L (get_or_na (with_location_key L (example_clean v)) ''Method Received''))
        (std_text L (get_or_na (with_location_key L (example_clean v)) ''Status''))
        (std_text L (get_or_na (with_location_key L (example_clean v)) ''Police Precinct''))
        (std_text L (get_or_na (with_location_key L (example_clean v)) ''Where is the Illegal Dumping Violation located?''))
        (std_text L (get_or_na (with_location_key L (example_clean v)) ''Choose a description of the Illegal Dumping''))"
    and dc: "dim_category t = build_dim_category L
        (std_text L (get_or_na (with_location_key L (example_clean v)) ''Where is the Illegal Dumping Violation located?''))
        (std_text L (get_or_na (with_location_key L (example_clean v)) ''Choose a description of the Illegal Dumping''))"
    by (rule build_star_schema_Inr)
  have desc: "std_text L (Text [Some ''Trash'', Some ''Trash'', Some ''Unknown'']) =
      [Some ''Trash'', Some ''Trash'', Some ''Unknown'']"
    by (simp add: std_text_def eval_text)
  have up: "std_upper_key L (Text [Some ''Trash'', Some ''Trash'', Some ''Unknown'']) =
      [Some ''TRASH'', Some ''TRASH'', Some ''UNKNOWN'']"
    by (simp add: std_upper_key_def eval_text)
  have sr: "std_text L (Text [Some ''23-00000001'', Some ''23-00000002'', Some ''23-00000003'']) =
      [Some ''23-00000001'', Some ''23-00000002'', Some ''23-00000003'']"
    by (simp add: std_text_def eval_text)
  from dl show "dim_location t =
           \<lparr> loc_LocationKey = Text [Some ''47.6062,-122.3321'', Some ''456 OAK AVE''],
             loc_Location = Text [Some ''123 MAIN ST'', Some ''456 Oak Ave''],
             loc_Latitude = Float [Some (Fin False 476062 4), None],
             loc_Longitude = Float [Some (Fin True 1223321 4), None],
             loc_ZIPCode = Text [Some ''98101'', None],
             loc_PolicePrecinct = Text [Some ''West'', Some ''Unknown''],
             loc_CouncilDistrict = Integer [Some 7, None] \<rparr>"
    by (simp add: example_dim_location)
  show "LocationKey (fact t) = Text [Some ''47.6062,-122.3321'', Some ''47.6062,-122.3321'', Some ''456 OAK AVE'']"
    by (simp add: f build_fact_def example_location_key)
  show "ServiceRequestNumber (fact t) = Text [Some ''23-00000001'', Some ''23-00000002'', Some ''23-00000003'']"
    by (simp add: f build_fact_def example_other_cols example_get sr)
  show "CouncilDistrict (fact t) = Integer [Some 7, Some 7, None]"
    by (simp add: f build_fact_def example_other_cols example_get)
  show "ViolationLocatedAt (fact t) = Text (std_text L (Text v))"
    by (simp add: f build_fact_def example_other_cols example_get)
  show "DumpingDescription (fact t) = Text [Some ''Trash'', Some ''Trash'', Some ''Unknown'']"
    by (simp add: f build_fact_def example_other_cols example_get desc)
  show "CategoryKey (fact t) =
           Text (add_series (add_text (std_upper_key L (Text (std_text L (Text v)))) ''|'')
                   [Some ''TRASH'', Some ''TRASH'', Some ''UNKNOWN''])"
    by (simp add: f build_fact_def example_other_cols example_get desc up)
  show "dim_category t =
           build_dim_category L (std_text L (Text v)) [Some ''Trash'', Some ''Trash'', Some ''Unknown'']"
    by (simp add: dc example_other_cols example_get desc)
qed

lemma example_category_keys:
  "std_text L (Text [Some ''Alley'', Some ''Alley'', Some ''Unknown'']) = [Some ''Alley'', Some ''Alley'', Some ''Unknown'']"
  "std_text L (Text [Some ''Alley'', Some ''ALLEY'', Some ''Unknown'']) = [Some ''Alley'', Some ''ALLEY'', Some ''Unknown'']"
  "add_series (add_text (std_upper_key L (Text [Some ''Alley'', Some ''Alley'', Some ''Unknown''])) ''|'')
     [Some ''TRASH'', Some ''TRASH'', Some ''UNKNOWN'']
   = [Some ''ALLEY|TRASH'', Some ''ALLEY|TRASH'', Some ''UNKNOWN|UNKNOWN'']"
  "add_series (add_text (std_upper_key L (Text [Some ''Alley'', Some ''ALLEY'', Some ''Unknown''])) ''|'')
     [Some ''TRASH'', Some ''TRASH'', Some ''UNKNOWN'']
   = [Some ''ALLEY|TRASH'', Some ''ALLEY|TRASH'', Some ''UNKNOWN|UNKNOWN'']"
  "build_dim_category L [Some ''Alley'', Some ''Alley'', Some ''Unknown''] [Some ''Trash'', Some ''Trash'', Some ''Unknown'']
   = \<lparr> cat_ViolationLocatedAt = Text [Some ''Alley'', Some ''Unknown''],
       cat_DumpingDescription = Text [Some ''Trash'', Some ''Unknown''],
       cat_CategoryKey = Text [Some ''ALLEY|TRASH'', Some ''UNKNOWN|UNKNOWN''] \<rparr>"
  "build_dim_category L [Some ''Alley'', Some ''ALLEY'', Some ''Unknown''] [Some ''Trash'', Some ''Trash'', Some ''Unknown'']
   = \<lparr> cat_ViolationLocatedAt = Text [Some ''Alley'', Some ''ALLEY'', Some ''Unknown''],
       cat_DumpingDescription = Text [Some ''Trash'', Some ''Trash'', Some ''Unknown''],
       cat_CategoryKey = Text [Some ''ALLEY|TRASH'', Some ''ALLEY|TRASH'', Some ''UNKNOWN|UNKNOWN''] \<rparr>"
  by (simp_all add: std_text_def std_upper_key_def add_series_def add_text_def build_dim_category_def
      drop_duplicates_def first_rows_def duplicated_def select_rows_def Let_def eval_text)

text \<open>
  C3. For every fact row, \<open>dim_category\<close> has a row with the same
  (ViolationLocatedAt, DumpingDescription) pair, and every \<open>dim_category\<close> row with
  that pair carries the CategoryKey of the fact row: the two places compute the key
  alike. The pair is the one of the cleaned input, \<^verbatim>\<open>Unknown\<close> included.
\<close>

theorem category_key_symmetry:
  assumes "build_star_schema L clean_df = Inr t"
    and "i < col_length (CategoryKey (fact t))"
  shows "(\<exists>j < col_length (cat_CategoryKey (dim_category t)).
            cells (cat_ViolationLocatedAt (dim_category t)) ! j = cells (ViolationLocatedAt (fact t)) ! i \<and>
            cells (cat_DumpingDescription (dim_category t)) ! j = cells (DumpingDescription (fact t)) ! i) \<and>
         (\<forall>j < col_length (cat_CategoryKey (dim_category t)).
            cells (cat_ViolationLocatedAt (dim_category t)) ! j = cells (ViolationLocatedAt (fact t)) ! i \<and>
            cells (cat_DumpingDescription (dim_category t)) ! j = cells (DumpingDescription (fact t)) ! i \<longrightarrow>
            cells (cat_CategoryKey (dim_category t)) ! j = cells (CategoryKey (fact t)) ! i)"
proof -
  from assms(1) obtain v d where cols:
    "ViolationLocatedAt (fact t) = Text v" "DumpingDescription (fact t) = Text d"
    "CategoryKey (fact t) = Text (map (\<lambda>p. str_add (str_add (std_upper_key_value (fst p)) (Some ''|''))
        (std_upper_key_value (snd p))) (zip v d))"
    "cat_ViolationLocatedAt (dim_category t) = Text (map fst (drop_duplicates (zip v d)))"
    "cat_DumpingDescription (dim_category t) = Text (map snd (drop_duplicates (zip v d)))"
    "cat_CategoryKey (dim_category t) = Text (map (\<lambda>p. str_add (str_add (std_upper_key_value (fst p)) (Some ''|''))
        (std_upper_key_value (snd p))) (drop_duplicates (zip v d)))"
    by (rule fact_category_columns)
  let ?rows = "drop_duplicates (zip v d)"
  from assms(2) cols have i: "i < length v" "i < length d" by simp_all
  then have "(v ! i, d ! i) \<in> set (zip v d)"
    by (auto simp: set_zip)
  then have "(v ! i, d ! i) \<in> set ?rows"
    by (simp add: set_drop_duplicates)
  then obtain j where j: "j < length ?rows" "?rows ! j = (v ! i, d ! i)"
    by (auto simp: in_set_conv_nth)
  have first: "\<exists>j < col_length (cat_CategoryKey (dim_category t)).
            cells (cat_ViolationLocatedAt (dim_category t)) ! j = cells (ViolationLocatedAt (fact t)) ! i \<and>
            cells (cat_DumpingDescription (dim_category t)) ! j = cells (DumpingDescription (fact t)) ! i"
    using j i by (intro exI [of _ j]) (simp add: cols)
  have second: "cells (cat_CategoryKey (dim_category t)) ! k = cells (CategoryKey (fact t)) ! i"
    if k: "k < col_length (cat_CategoryKey (dim_category t))"
      and eq: "cells (cat_ViolationLocatedAt (dim_category t)) ! k = cells (ViolationLocatedAt (fact t)) ! i"
        "cells (cat_DumpingDescription (dim_category t)) ! k = cells (DumpingDescription (fact t)) ! i"
    for k
  proof -
    from k cols have k': "k < length ?rows" by simp
    with eq i cols have "fst (?rows ! k) = v ! i" "snd (?rows ! k) = d ! i"
      by (simp_all add: cell_of_inject)
    with k' i show ?thesis by (simp add: cols)
  qed
  from first second show ?thesis by blast
qed

text \<open>
  The theorem at the third record of the example frame, whose two category fields are
  \<^verbatim>\<open>Unknown\<close>: row 1 of \<open>dim_category\<close> has its pair and its key.
\<close>

theorem category_key_symmetry_witness:
  "map_sum id (\<lambda>t. (cells (ViolationLocatedAt (fact t)), cells (CategoryKey (fact t)),
                       cells (cat_ViolationLocatedAt (dim_category t)), cells (cat_CategoryKey (dim_category t)),
                       \<exists>j<2. cells (cat_ViolationLocatedAt (dim_category t)) ! j = cells (ViolationLocatedAt (fact t)) ! 2 \<and>
                             cells (cat_DumpingDescription (dim_category t)) ! j = cells (DumpingDescription (fact t)) ! 2 \<and>
                             cells (cat_CategoryKey (dim_category t)) ! j = cells (CategoryKey (fact t)) ! 2))
     (build_star_schema example_library (example_clean [Some ''Alley'', Some ''Alley'', Some ''Unknown'']))
   = Inr ([S ''Alley'', S ''Alley'', S ''Unknown''], [S ''ALLEY|TRASH'', S ''ALLEY|TRASH'', S ''UNKNOWN|UNKNOWN''],
          [S ''Alley'', S ''Unknown''], [S ''ALLEY|TRASH'', S ''UNKNOWN|UNKNOWN''], True)"
proof -
  obtain t where t: "build_star_schema example_library
      (example_clean [Some ''Alley'', Some ''Alley'', Some ''Unknown'']) = Inr t"
    using example_builds by blast
  note tabs = example_tables [OF t] example_category_keys
  have i: "2 < col_length (CategoryKey (fact t))"
    by (simp add: tabs)
  have n: "col_length (cat_CategoryKey (dim_category t)) = 2"
    by (simp add: tabs)
  from category_key_symmetry [OF t i]
  have "\<exists>j<2. cells (cat_ViolationLocatedAt (dim_category t)) ! j = cells (ViolationLocatedAt (fact t)) ! 2 \<and>
              cells (cat_DumpingDescription (dim_category t)) ! j = cells (DumpingDescription (fact t)) ! 2 \<and>
              cells (cat_CategoryKey (dim_category t)) ! j = cells (CategoryKey (fact t)) ! 2"
    unfolding n by blast
  with t show ?thesis
    by (simp add: tabs)
qed

text \<open>
  C6, as the code has it. \<open>dim_category\<close> has one row for each distinct
  (ViolationLocatedAt, DumpingDescription) pair, and the other four dimension tables
  are unique on their keys. The CategoryKey is computed after the pairs are
  deduplicated; it is unique in every table set that passes the gates.
\<close>

theorem dimensions_deduplicated:
  assumes "build_star_schema L clean_df = Inr t"
  shows "distinct (zip (cells (cat_ViolationLocatedAt (dim_category t)))
                       (cells (cat_DumpingDescription (dim_category t)))) \<and>
         distinct (cells (loc_LocationKey (dim_location t))) \<and>
         distinct (cells (Date (dim_date t))) \<and>
         distinct (cells (intake_MethodReceived (dim_intake t))) \<and>
         distinct (cells (status_Status (dim_status t))) \<and>
         (qa_checks t = None \<longrightarrow> distinct (cells (cat_CategoryKey (dim_category t))))"
proof -
  have "distinct (cells (cat_CategoryKey (dim_category t)))" if "qa_checks t = None"
  proof (rule ccontr)
    assume "\<not> distinct (cells (cat_CategoryKey (dim_category t)))"
    then have "model_defect t" by (simp add: model_defect_def)
    then have "qa_checks t \<noteq> None" by (simp add: qa_checks_defect)
    with that show False by simp
  qed
  with assms show ?thesis
    by (simp add: dim_category_pairs_distinct dim_location_keys_distinct small_dimensions_distinct)
qed

text \<open>The theorem at the example frame, which passes the gates.\<close>

theorem dimensions_deduplicated_witness:
  "map_sum id (\<lambda>t. (zip (cells (cat_ViolationLocatedAt (dim_category t)))
                          (cells (cat_DumpingDescription (dim_category t))),
                       cells (cat_CategoryKey (dim_category t)),
                       distinct (cells (Date (dim_date t))),
                       qa_checks t))
     (build_star_schema example_library (example_clean [Some ''Alley'', Some ''Alley'', Some ''Unknown'']))
   = Inr ([(S ''Alley'', S ''Trash''), (S ''Unknown'', S ''Unknown'')],
          [S ''ALLEY|TRASH'', S ''UNKNOWN|UNKNOWN''], True, None)"
proof -
  obtain t where t: "build_star_schema example_library
      (example_clean [Some ''Alley'', Some ''Alley'', Some ''Unknown'']) = Inr t"
    using example_builds by blast
  note tabs = example_tables [OF t] example_category_keys
  have "\<not> model_defect t"
    by (simp add: model_defect_def tabs)
  then have "qa_checks t = None"
    by (rule qa_checks_clean)
  with dimensions_deduplicated [OF t] t show ?thesis
    by (simp add: tabs)
qed

text \<open>
  C6 as stated asks for a unique CategoryKey in the table the modeler builds. Two
  records that name the violation place \<^verbatim>\<open>Alley\<close> and \<^verbatim>\<open>ALLEY\<close> are two distinct
  pairs with one key, \<^verbatim>\<open>ALLEY|TRASH\<close>: the key stands twice in \<open>dim_category\<close>, and the
  last gate stops the export.
\<close>

theorem dim_category_repeats_key:
  "map_sum id (\<lambda>t. (zip (cells (cat_ViolationLocatedAt (dim_category t)))
                          (cells (cat_DumpingDescription (dim_category t))),
                       cells (cat_CategoryKey (dim_category t)),
                       fst (qa_and_export t ''exports'' empty_fs)))
     (build_star_schema example_library (example_clean [Some ''Alley'', Some ''ALLEY'', Some ''Unknown'']))
   = Inr ([(S ''Alley'', S ''Trash''), (S ''ALLEY'', S ''Trash''), (S ''Unknown'', S ''Unknown'')],
          [S ''ALLEY|TRASH'', S ''ALLEY|TRASH'', S ''UNKNOWN|UNKNOWN''],
          Some (ValueError ''dim_category has duplicate CategoryKey values.''))"
proof -
  obtain t where t: "build_star_schema example_library
      (example_clean [Some ''Alley'', Some ''ALLEY'', Some ''Unknown'']) = Inr t"
    using example_builds by blast
  note tabs = example_tables [OF t] example_category_keys
  have "model_defect t" and "first_failure t = ''dim_category has duplicate CategoryKey values.''"
    by (simp_all add: model_defect_def first_failure_def tabs)
  then have "qa_checks t = Some (ValueError ''dim_category has duplicate CategoryKey values.'')"
    using qa_checks_defect [of t] by simp
  then have "fst (qa_and_export t ''exports'' empty_fs) =
      Some (ValueError ''dim_category has duplicate CategoryKey values.'')"
    by (simp add: qa_and_export_raises empty_fs_def)
  with t show ?thesis
    by (simp add: tabs)
qed

lemma qa_checks_not_dim_location:
  assumes "dim_location_check (dim_location t) = None"
  shows "qa_checks t \<noteq> Some (ValueError ''dim_location has duplicate LocationKey values.'')"
  using assms
  by (auto simp: qa_checks_def grain_check_def join_key_check_def dim_category_check_def Let_def
      split: option.splits if_splits)

text \<open>
  C9. In what \<open>build_star_schema\<close> returns the keys of \<open>dim_location\<close> are distinct, so
  its gate passes and \<open>qa_and_export\<close> never raises that gate's error.
\<close>

theorem dim_location_gate_unreachable:
  assumes "build_star_schema L clean_df = Inr t"
  shows "distinct (cells (loc_LocationKey (dim_location t))) \<and>
         dim_location_check (dim_location t) = None \<and>
         fst (qa_and_export t export_dir fs) \<noteq>
           Some (ValueError ''dim_location has duplicate LocationKey values.'')"
proof -
  from assms have d: "distinct (cells (loc_LocationKey (dim_location t)))"
    by (rule dim_location_keys_distinct)
  then have c: "dim_location_check (dim_location t) = None"
    by (simp add: dim_location_check_iff)
  then have "qa_checks t \<noteq> Some (ValueError ''dim_location has duplicate LocationKey values.'')"
    by (rule qa_checks_not_dim_location)
  then have "fst (qa_and_export t export_dir fs) \<noteq>
           Some (ValueError ''dim_location has duplicate LocationKey values.'')"
    by (auto simp: qa_and_export_def mkdir_def split: option.splits)
  with d c show ?thesis by simp
qed

text \<open>
  The theorem at the example frame: three fact rows, two locations.
\<close>

theorem dim_location_gate_unreachable_witness:
  "map_sum id (\<lambda>t. (cells (LocationKey (fact t)), cells (loc_LocationKey (dim_location t)),
                       dim_location_check (dim_location t)))
     (build_star_schema example_library (example_clean [Some ''Alley'', Some ''Alley'', Some ''Unknown'']))
   = Inr ([S ''47.6062,-122.3321'', S ''47.6062,-122.3321'', S ''456 OAK AVE''],
          [S ''47.6062,-122.3321'', S ''456 OAK AVE''], None)"
proof -
  obtain t where t: "build_star_schema example_library
      (example_clean [Some ''Alley'', Some ''Alley'', Some ''Unknown'']) = Inr t"
    using example_builds by blast
  from dim_location_gate_unreachable [OF t] have "dim_location_check (dim_location t) = None"
    by simp
  with t show ?thesis
    by (simp add: example_tables [OF t])
qed

subsection \<open>The record cleaner\<close>

text \<open>What each step of \<open>load_and_clean\<close> does to the column under a name.\<close>

lemma get_parse_created_date:
  "get (parse_created_date L df) k =
     (if k = ''Created Date''
      then Some (case get df ''Created Date'' of None \<Rightarrow> all_na df | Some c \<Rightarrow> Stamp (to_datetime L c))
      else get df k)"
  by (simp add: parse_created_date_def get_set_col)

lemma get_clean_zip:
  "get (clean_zip L df) k =
     (if k = ''ZIP Code''
      then map_option (\<lambda>c. Text (map extract_zip_value (astype_string L c))) (get df ''ZIP Code'')
      else get df k)"
  by (simp add: clean_zip_def get_set_col split: option.splits)

lemma get_clean_council_district:
  assumes "clean_council_district L df = Inr df'"
  shows "get df' k =
     (if k = ''Council District''
      then map_option (\<lambda>c. Integer (map int64_value (to_numeric L c))) (get df ''Council District'')
      else get df k)"
  using assms
  by (auto simp: clean_council_district_def astype_Int64_def get_set_col split: option.splits sum.splits if_splits)

lemma get_numeric_col:
  "get (numeric_col L name df) k =
     (if k = name then map_option (\<lambda>c. Float (to_numeric L c)) (get df name) else get df k)"
  by (simp add: numeric_col_def get_set_col split: option.splits)

lemma get_mask_zero_coordinates_other:
  "k \<noteq> ''Latitude'' \<Longrightarrow> k \<noteq> ''Longitude'' \<Longrightarrow> get (mask_zero_coordinates L df) k = get df k"
  by (simp add: mask_zero_coordinates_def get_set_col split: option.splits)

lemma get_mask_zero_coordinates_None: "get (mask_zero_coordinates L df) k = None \<longleftrightarrow> get df k = None"
  by (auto simp: mask_zero_coordinates_def get_set_col split: option.splits)

lemma get_standardize_text: "get (standardize_text L df) k = map_option (std_text_col L) (get df k)"
proof -
  have "map_of (map (\<lambda>p. (fst p, f (snd p))) ps) k = map_option f (map_of ps k)" for f :: "column \<Rightarrow> column" and ps
    by (induction ps) auto
  then show ?thesis by (simp add: get_def standardize_text_def)
qed

lemma get_drop_column: "get (drop_column name df) k = (if k = name then None else get df k)"
proof -
  have "map_of (filter (\<lambda>p. fst p \<noteq> name) ps) k = (if k = name then None else map_of ps k)"
    for ps :: "(string \<times> column) list"
    by (induction ps) auto
  then show ?thesis by (simp add: get_def drop_column_def)
qed

lemma get_fill_unknown_other:
  "k \<notin> set names \<Longrightarrow> get (fill_unknown L names df) k = get df k"
  by (induction names arbitrary: df) (auto simp: get_set_col split: option.splits)

lemma get_fill_unknown_None: "get (fill_unknown L names df) k = None \<longleftrightarrow> get df k = None"
  by (induction names arbitrary: df) (auto simp: get_set_col split: option.splits)

lemma get_derive_features:
  assumes "derive_features L df = Inr df'" and "k \<notin> set derived_cols"
  shows "get df' k = get df k"
  using assms
  by (auto simp: derive_features_def derived_cols_def get_set_col split: option.splits column.splits)

lemma derive_features_Inr:
  assumes "derive_features L df = Inr df'"
  obtains ts where "get df ''Created Date'' = Some (Stamp ts)"
  using assms by (auto simp: derive_features_def split: option.splits column.splits)

lemma load_and_clean_Inr:
  assumes "load_and_clean L df = Inr c"
  obtains df3 where
    "clean_council_district L (clean_zip L (parse_created_date L df)) = Inr df3"
    "derive_features L
       (fill_unknown L safe_unknown_cols
         (drop_column ''Community Reporting Area''
           (standardize_text L
             (mask_zero_coordinates L
               (numeric_col L ''Longitude'' (numeric_col L ''Latitude'' df3)))))) = Inr c"
  using assms by (auto simp: load_and_clean_def split: sum.splits)


text \<open>No conversion makes a value where there was none.\<close>

lemma length_cells [simp]: "length (cells c) = col_length c"
  by (cases c) simp_all

lemma length_astype_string [simp]: "length (astype_string L c) = col_length c"
  by (cases c) simp_all

lemma length_to_numeric [simp]: "length (to_numeric L c) = col_length c"
  by (cases c) simp_all

lemma length_to_datetime [simp]: "length (to_datetime L c) = col_length c"
  by (cases c) simp_all




lemma na_kept_iff:
  "na_kept c c' \<longleftrightarrow>
     col_length c' \<le> col_length c \<and> (\<forall>i < col_length c'. cells c ! i = NA \<longrightarrow> cells c' ! i = NA)"
  by (auto simp: na_kept_def list_all_iff)

lemma na_kept_or_unknown_iff:
  "na_kept_or_unknown c c' \<longleftrightarrow>
     col_length c' \<le> col_length c \<and>
     (\<forall>i < col_length c'. cells c ! i = NA \<longrightarrow> cells c' ! i = NA \<or> cells c' ! i = S ''Unknown'')"
  by (auto simp: na_kept_or_unknown_def list_all_iff)




lemma na_kept_imp_unknown: "na_kept a b \<Longrightarrow> na_kept_or_unknown a b"
  by (simp add: na_kept_iff na_kept_or_unknown_iff)




















text \<open>
  \<open>load_and_clean\<close> returns when the frame has a \<^verbatim>\<open>Created Date\<close> column and every
  number in its council district column is whole; what it returns has the columns of
  the input, less the one it drops, and the timestamps.
\<close>

lemma has_col_None: "\<not> has_col df k \<longleftrightarrow> get df k = None"
  by (simp add: has_col_get)

lemma load_and_clean_has_col:
  assumes "load_and_clean L raw = Inr clean_df" and "k \<notin> set derived_cols"
    and "k \<noteq> ''Created Date''" and "k \<noteq> ''Community Reporting Area''"
  shows "has_col clean_df k \<longleftrightarrow> has_col raw k"
proof -
  from assms(1) obtain df3 where
    s3: "clean_council_district L (clean_zip L (parse_created_date L raw)) = Inr df3"
    and s9: "derive_features L
       (fill_unknown L safe_unknown_cols
         (drop_column ''Community Reporting Area''
           (standardize_text L
             (mask_zero_coordinates L
               (numeric_col L ''Longitude'' (numeric_col L ''Latitude'' df3)))))) = Inr clean_df"
    by (rule load_and_clean_Inr)
  have "get df3 k = None \<longleftrightarrow> get raw k = None"
    using assms(3) by (simp add: get_clean_council_district [OF s3] get_clean_zip get_parse_created_date)
  moreover have "get clean_df k = None \<longleftrightarrow> get df3 k = None"
    using assms(4)
    by (simp add: get_derive_features [OF s9 assms(2)] get_fill_unknown_None get_drop_column
        get_standardize_text get_mask_zero_coordinates_None get_numeric_col)
  ultimately show ?thesis
    by (simp add: has_col_get)
qed

lemma load_and_clean_created_date:
  assumes "load_and_clean L raw = Inr clean_df"
  obtains col where "get raw ''Created Date'' = Some col"
    and "get clean_df ''Created Date'' = Some (Stamp (to_datetime L col))"
proof -
  from assms obtain df3 where
    s3: "clean_council_district L (clean_zip L (parse_created_date L raw)) = Inr df3"
    and s9: "derive_features L
       (fill_unknown L safe_unknown_cols
         (drop_column ''Community Reporting Area''
           (standardize_text L
             (mask_zero_coordinates L
               (numeric_col L ''Longitude'' (numeric_col L ''Latitude'' df3)))))) = Inr clean_df"
    by (rule load_and_clean_Inr)
  have n1: "''Created Date'' \<notin> set safe_unknown_cols" by (simp add: safe_unknown_cols_def)
  have n2: "''Created Date'' \<notin> set derived_cols" by (simp add: derived_cols_def)
  let ?c = "case get raw ''Created Date'' of None \<Rightarrow> all_na raw | Some c \<Rightarrow> Stamp (to_datetime L c)"
  have g3: "get df3 ''Created Date'' = Some ?c"
    by (simp add: get_clean_council_district [OF s3] get_clean_zip get_parse_created_date)
  then have g9: "get (fill_unknown L safe_unknown_cols
         (drop_column ''Community Reporting Area''
           (standardize_text L
             (mask_zero_coordinates L
               (numeric_col L ''Longitude'' (numeric_col L ''Latitude'' df3)))))) ''Created Date''
      = Some (std_text_col L ?c)"
    by (simp add: get_fill_unknown_other [OF n1] get_drop_column get_standardize_text
        get_mask_zero_coordinates_other get_numeric_col)
  from s9 obtain ts where "get (fill_unknown L safe_unknown_cols
         (drop_column ''Community Reporting Area''
           (standardize_text L
             (mask_zero_coordinates L
               (numeric_col L ''Longitude'' (numeric_col L ''Latitude'' df3)))))) ''Created Date''
      = Some (Stamp ts)"
    by (rule derive_features_Inr)
  with g9 have st: "std_text_col L ?c = Stamp ts" by simp
  then obtain col where col: "get raw ''Created Date'' = Some col"
    by (cases "get raw ''Created Date''") (simp_all add: all_na_def)
  with g9 have "get clean_df ''Created Date'' = Some (Stamp (to_datetime L col))"
    by (simp add: get_derive_features [OF s9 n2])
  with col that show thesis by blast
qed

lemma load_and_clean_returns:
  assumes "get raw ''Created Date'' = Some col"
    and "case get raw ''Council District'' of None \<Rightarrow> True | Some c \<Rightarrow> list_all castable (to_numeric L c)"
  shows "\<exists>clean_df. load_and_clean L raw = Inr clean_df"
proof -
  have "get (clean_zip L (parse_created_date L raw)) ''Council District'' = get raw ''Council District''"
    by (simp add: get_clean_zip get_parse_created_date)
  with assms(2) obtain df3 where
    s3: "clean_council_district L (clean_zip L (parse_created_date L raw)) = Inr df3"
    by (auto simp: clean_council_district_def astype_Int64_def split: option.splits)
  have n1: "''Created Date'' \<notin> set safe_unknown_cols" by (simp add: safe_unknown_cols_def)
  have "get df3 ''Created Date'' = Some (Stamp (to_datetime L col))"
    using assms(1) by (simp add: get_clean_council_district [OF s3] get_clean_zip get_parse_created_date)
  then have "get (fill_unknown L safe_unknown_cols
         (drop_column ''Community Reporting Area''
           (standardize_text L
             (mask_zero_coordinates L
               (numeric_col L ''Longitude'' (numeric_col L ''Latitude'' df3)))))) ''Created Date''
      = Some (Stamp (to_datetime L col))"
    by (simp add: get_fill_unknown_other [OF n1] get_drop_column get_standardize_text
        get_mask_zero_coordinates_other get_numeric_col)
  then have "\<exists>clean_df. derive_features L (fill_unknown L safe_unknown_cols
         (drop_column ''Community Reporting Area''
           (standardize_text L
             (mask_zero_coordinates L
               (numeric_col L ''Longitude'' (numeric_col L ''Latitude'' df3)))))) = Inr clean_df"
    by (simp add: derive_features_def)
  with s3 show ?thesis by (simp add: load_and_clean_def)
qed

text \<open>The cleaner on the example frame.\<close>

lemma example_step_1:
  "parse_created_date example_library example_raw =
     set_col ''Created Date'' (Stamp [Some 1672617600000000000, Some 1672617600000000000, None]) example_raw"
  by (simp add: parse_created_date_def)
     (simp add: example_raw_def get_def eval_parse eval_calendar)

lemma example_load_and_clean: "load_and_clean example_library example_raw = Inr example_cleaned"
  unfolding load_and_clean_def example_step_1
  by (simp add: example_raw_def example_cleaned_def set_col_def get_def clean_zip_def clean_council_district_def
      astype_Int64_def numeric_col_def mask_zero_coordinates_def mask_rows_def mask_00_def standardize_text_def
      drop_column_def safe_unknown_cols_def fillna_unknown_def fillna_def derive_features_def std_text_def
      is_digit_def eval_text eval_num eval_parse eval_calendar)

lemma example_clean_same:
  "example_clean [Some ''Alley'', Some ''Alley'', Some ''Unknown''] = example_cleaned"
  by (simp add: example_clean_def example_cleaned_def set_col_def)



subsection \<open>The pipeline\<close>

text \<open>
  \<open>build_star_schema\<close> selects seven columns by name for \<open>dim_location\<close>. Six of them
  come from the input file, so \<open>main\<close> raises, and writes nothing, on every input that
  lacks one of the six.
\<close>

lemma build_star_schema_missing:
  assumes "k \<in> set dim_location_cols" and "\<not> has_col (with_location_key L clean_df) k"
  shows "\<exists>e. build_star_schema L clean_df = Inl e"
  using build_dim_location_missing [OF assms, of L]
  by (simp add: build_star_schema_def Let_def split: option.splits)

lemma build_star_schema_KeyError:
  assumes "get clean_df ''Created Date'' = Some c"
    and "filter (\<lambda>name. \<not> has_col clean_df name) (tl dim_location_cols) = missing" and "missing \<noteq> []"
  shows "build_star_schema L clean_df = Inl (KeyError missing)"
proof -
  have c: "get (with_location_key L clean_df) ''Created Date'' = Some c"
    using assms(1) by (simp add: with_location_key_def get_set_col)
  have cols: "dim_location_cols = ''LocationKey'' # tl dim_location_cols"
    by (simp add: dim_location_cols_def)
  have key: "has_col (with_location_key L clean_df) ''LocationKey''"
    by (simp add: with_location_key_def has_col_set_col)
  have "filter (\<lambda>name. \<not> has_col (with_location_key L clean_df) name) (tl dim_location_cols) =
      filter (\<lambda>name. \<not> has_col clean_df name) (tl dim_location_cols)"
    by (rule filter_cong) (auto simp: dim_location_cols_def with_location_key_def has_col_set_col)
  with assms(2) key
  have "filter (\<lambda>name. \<not> has_col (with_location_key L clean_df) name) dim_location_cols = missing"
    by (subst cols) (simp only: filter.simps simp_thms if_False)
  with assms(3) have "build_dim_location L (with_location_key L clean_df) = Inl (KeyError missing)"
    by (simp add: build_dim_location_def)
  with c show ?thesis
    by (simp add: build_star_schema_def Let_def)
qed

lemma main_needs_dim_location_cols:
  assumes "k \<in> set (tl dim_location_cols)" and "\<not> has_col raw k"
  shows "fst (main L raw export_dir fs) \<noteq> None \<and> snd (main L raw export_dir fs) = fs"
proof (cases "load_and_clean L raw")
  case (Inl e)
  then show ?thesis by (simp add: main_def)
next
  case (Inr clean_df)
  from assms(1) have k: "k \<notin> set derived_cols" "k \<noteq> ''Created Date''" "k \<noteq> ''Community Reporting Area''"
    "k \<noteq> ''LocationKey''" "k \<in> set dim_location_cols"
    by (auto simp: dim_location_cols_def derived_cols_def)
  from Inr k(1,2,3) assms(2) have "\<not> has_col clean_df k"
    by (simp add: load_and_clean_has_col)
  with k(4) have "\<not> has_col (with_location_key L clean_df) k"
    by (simp add: with_location_key_def has_col_set_col)
  with k(5) obtain e where "build_star_schema L clean_df = Inl e"
    using build_star_schema_missing by blast
  with Inr show ?thesis by (simp add: main_def)
qed

text \<open>On the example frame \<open>main\<close> completes and writes the six files.\<close>

lemma main_completes_example:
  "fst (main example_library example_raw ''exports'' empty_fs) = None \<and>
   dirs (snd (main example_library example_raw ''exports'' empty_fs)) = [''exports''] \<and>
   map fst (files (snd (main example_library example_raw ''exports'' empty_fs))) =
     [''exports/fact_illegal_dumping.csv'', ''exports/dim_date.csv'', ''exports/dim_location.csv'',
      ''exports/dim_category.csv'', ''exports/dim_intake.csv'', ''exports/dim_status.csv'']"
proof -
  obtain t where t: "build_star_schema example_library example_cleaned = Inr t"
    using example_builds [of example_library "[Some ''Alley'', Some ''Alley'', Some ''Unknown'']"]
    by (auto simp: example_clean_same)
  note tabs = example_tables [of example_library "[Some ''Alley'', Some ''Alley'', Some ''Unknown'']" t,
      unfolded example_clean_same, OF t] example_category_keys
  have "\<not> model_defect t"
    by (simp add: model_defect_def tabs)
  then have "qa_checks t = None"
    by (rule qa_checks_clean)
  then have "qa_and_export t ''exports'' empty_fs =
      (None, export_csvs t ''exports'' \<lparr>dirs = [''exports''], files = []\<rparr>)"
    by (simp add: qa_and_export_def mkdir_def empty_fs_def)
  then show ?thesis
    by (simp add: main_def example_load_and_clean t export_csvs_def to_csv_def)
qed

text \<open>
  C7 fails on the code. The same frame without its \<^verbatim>\<open>Latitude\<close> column is cleaned
  (\<open>load_and_clean\<close> and \<open>build_location_key\<close> take the column for missing), and then
  \<open>build_star_schema\<close> raises \<^verbatim>\<open>KeyError\<close> at the selection for \<open>dim_location\<close>:
  no table is built and no file is written.
\<close>

theorem main_fails_without_latitude:
  "main example_library (drop_column ''Latitude'' example_raw) ''exports'' empty_fs =
     (Some (KeyError [''Latitude'']), empty_fs)"
proof -
  let ?raw = "drop_column ''Latitude'' example_raw"
  have created: "get ?raw ''Created Date'' = Some (Text [Some ''2023-01-02'', Some ''2023-01-02'', Some ''soon''])"
    by (simp add: get_drop_column) (simp add: example_raw_def get_def)
  have council: "case get ?raw ''Council District'' of None \<Rightarrow> True
      | Some c \<Rightarrow> list_all castable (to_numeric example_library c)"
    by (simp add: get_drop_column) (simp add: example_raw_def get_def eval_parse)
  from load_and_clean_returns [OF created council]
  obtain clean_df where c: "load_and_clean example_library ?raw = Inr clean_df"
    by blast
  from c obtain col where cd: "get clean_df ''Created Date'' = Some (Stamp (to_datetime example_library col))"
    by (rule load_and_clean_created_date)
  have same: "has_col clean_df k = has_col ?raw k" if "k \<in> set (tl dim_location_cols)" for k
    using that by (intro load_and_clean_has_col [OF c]) (auto simp: dim_location_cols_def derived_cols_def)
  have "filter (\<lambda>name. \<not> has_col clean_df name) (tl dim_location_cols) =
      filter (\<lambda>name. \<not> has_col ?raw name) (tl dim_location_cols)"
    by (rule filter_cong) (simp_all add: same)
  also have "\<dots> = [''Latitude'']"
    by (simp add: dim_location_cols_def has_col_get get_drop_column) (simp add: example_raw_def get_def)
  finally have "build_star_schema example_library clean_df = Inl (KeyError [''Latitude''])"
    using cd by (intro build_star_schema_KeyError) simp_all
  with c show ?thesis
    by (simp add: main_def)
qed

end
